theory Spec2Isabelle
  imports Main "HOL-Library.Word"
begin

unbundle bit_operations_syntax

section \<open>JavaScript values\<close>

text \<open>
  The client passes around untyped JavaScript values: error objects from the HTTP
  transport, response objects, payloads, constructor arguments that may be missing.
  A value is modelled structurally. Numbers are integers (status codes, HTTP error
  codes; \<open>NaN\<close> and fractions do not occur in the code paths modelled), a string is a
  list of characters, an object is an association list in insertion order whose first
  binding of a key is the property's value.
\<close>

datatype jsval =
    Undefined
  | Null
  | JBool bool
  | JNum int
  | JStr string
  | JArr "jsval list"
  | JObj "(string \<times> jsval) list"

text \<open>Truthiness, as \<^verbatim>\<open>if (v)\<close>, \<^verbatim>\<open>!v\<close> and \<^verbatim>\<open>a || b\<close> read a value.\<close>

fun truthy :: "jsval \<Rightarrow> bool" where
  "truthy Undefined = False"
| "truthy Null = False"
| "truthy (JBool b) = b"
| "truthy (JNum n) = (n \<noteq> 0)"
| "truthy (JStr s) = (s \<noteq> [])"
| "truthy (JArr xs) = True"
| "truthy (JObj kvs) = True"

text \<open>\<^verbatim>\<open>a || b\<close>: the left operand when it is truthy, the right one otherwise.\<close>

definition js_or :: "jsval \<Rightarrow> jsval \<Rightarrow> jsval" where
  "js_or a b = (if truthy a then a else b)"

text \<open>
  Reading a property of \<^verbatim>\<open>undefined\<close> or \<^verbatim>\<open>null\<close> throws a TypeError; the
  functions below test \<open>nullish\<close> where the source reads a property of a value that
  may be either. On every other value a property that is not there reads as
  \<^verbatim>\<open>undefined\<close>.
\<close>

fun nullish :: "jsval \<Rightarrow> bool" where
  "nullish Undefined = True"
| "nullish Null = True"
| "nullish v = False"

fun get_prop :: "jsval \<Rightarrow> string \<Rightarrow> jsval" where
  "get_prop (JObj kvs) k = (case map_of kvs k of Some v \<Rightarrow> v | None \<Rightarrow> Undefined)"
| "get_prop v k = Undefined"

text \<open>Assignment \<^verbatim>\<open>o.k = v\<close>: replaces the binding in place, or appends a new one.\<close>

fun assign :: "(string \<times> jsval) list \<Rightarrow> string \<Rightarrow> jsval \<Rightarrow> (string \<times> jsval) list" where
  "assign [] k v = [(k, v)]"
| "assign ((k', v') # kvs) k v = (if k' = k then (k, v) # kvs else (k', v') # assign kvs k v)"

fun set_prop :: "jsval \<Rightarrow> string \<Rightarrow> jsval \<Rightarrow> jsval" where
  "set_prop (JObj kvs) k v = JObj (assign kvs k v)"
| "set_prop w k v = w"

text \<open>\<^verbatim>\<open>typeof v === 'object'\<close>: objects, arrays and \<^verbatim>\<open>null\<close>.\<close>

fun typeof_object :: "jsval \<Rightarrow> bool" where
  "typeof_object (JObj kvs) = True"
| "typeof_object (JArr xs) = True"
| "typeof_object Null = True"
| "typeof_object v = False"

text \<open>\<^verbatim>\<open>typeof v !== 'string' || !v\<close> is false exactly for a non-empty string.\<close>

fun non_empty_string :: "jsval \<Rightarrow> bool" where
  "non_empty_string (JStr s) = (s \<noteq> [])"
| "non_empty_string v = False"

fun str_of :: "jsval \<Rightarrow> string" where
  "str_of (JStr s) = s"
| "str_of v = []"

section \<open>Thrown values\<close>

text \<open>
  A function that may throw returns \<open>jsval + 'a\<close>: \<open>Inl e\<close> is \<^verbatim>\<open>throw e\<close>.
  The error classes extend \<^verbatim>\<open>FBError\<close> of the package fb-utils-node, which is not
  part of this repository. Its instances are modelled by what the repository's tests
  read of them: \<^verbatim>\<open>e.name\<close> is the name of the class, \<^verbatim>\<open>e.code\<close> and
  \<^verbatim>\<open>e.message\<close> are the code and message it was constructed with.
\<close>

definition new_error :: "string \<Rightarrow> jsval \<Rightarrow> jsval \<Rightarrow> jsval" where
  "new_error cls code message =
     JObj [(''name'', JStr cls), (''code'', code), (''message'', message)]"

text \<open>A TypeError, thrown by the runtime or by \<^verbatim>\<open>new TypeError(message)\<close>.\<close>

definition type_error :: "string \<Rightarrow> jsval" where
  "type_error message = JObj [(''name'', JStr ''TypeError''), (''message'', JStr message)]"

section \<open>The client and its constructor\<close>

record client =
  serviceSecret :: jsval
  serviceToken :: jsval
  serviceUrl :: jsval
  serviceSlug :: jsval
  ErrorClass :: string
  constructor_name :: string

text \<open>
  \<^verbatim>\<open>throwRequestError (code, message)\<close>: the message defaults to the code; the error
  is an instance of the client's error class, given here by its name.
\<close>

definition throwRequestError :: "string \<Rightarrow> jsval \<Rightarrow> jsval \<Rightarrow> jsval + 'a" where
  "throwRequestError cls code message = Inl (new_error cls code (js_or message code))"

text \<open>
  The constructor. \<open>errorClass\<close> is the name of the error class passed, if one is;
  the prototype's default is \<^verbatim>\<open>FBJWTClientError\<close>. The four checks run in the
  source's order, and the first falsy argument throws.
\<close>

definition FBJWTClient :: "jsval \<Rightarrow> jsval \<Rightarrow> jsval \<Rightarrow> jsval \<Rightarrow> string option \<Rightarrow> jsval + client" where
  "FBJWTClient secret token slug microserviceUrl errorClass =
     (let cls = (case errorClass of Some e \<Rightarrow> e | None \<Rightarrow> ''FBJWTClientError'') in
      if \<not> truthy secret then
        throwRequestError cls (JStr ''ENOSERVICESECRET'') (JStr ''No service secret passed to client'')
      else if \<not> truthy token then
        throwRequestError cls (JStr ''ENOSERVICETOKEN'') (JStr ''No service token passed to client'')
      else if \<not> truthy slug then
        throwRequestError cls (JStr ''ENOSERVICESLUG'') (JStr ''No service slug passed to client'')
      else if \<not> truthy microserviceUrl then
        throwRequestError cls (JStr ''ENOMICROSERVICEURL'') (JStr ''No microservice url passed to client'')
      else
        Inr \<lparr>serviceSecret = secret, serviceToken = token, serviceUrl = microserviceUrl,
             serviceSlug = slug, ErrorClass = cls, constructor_name = ''FBJWTClient''\<rparr>)"

section \<open>The error classifier\<close>

definition getErrorStatusCode :: "jsval \<Rightarrow> jsval" where
  "getErrorStatusCode message =
     (if message = JStr ''ENOTFOUND'' then JNum 502
      else if message = JStr ''ECONNREFUSED'' then JNum 503
      else JNum 500)"

text \<open>
  \<^verbatim>\<open>if (err.body) { if (typeof err.body === 'object') { err.error = err.body } }\<close>:
  the error object as \<open>handleRequestError\<close> leaves it for its caller.
\<close>

definition normalise_body :: "jsval \<Rightarrow> jsval" where
  "normalise_body err =
     (if truthy (get_prop err ''body'') \<and> typeof_object (get_prop err ''body'')
      then set_prop err ''error'' (get_prop err ''body'')
      else err)"

text \<open>\<^verbatim>\<open>o.name || o.code || 'EUNSPECIFIED'\<close>\<close>

definition error_message :: "jsval \<Rightarrow> jsval" where
  "error_message errorObj =
     js_or (get_prop errorObj ''name'') (js_or (get_prop errorObj ''code'') (JStr ''EUNSPECIFIED''))"

text \<open>
  \<open>handleRequestError\<close> returns nothing: every branch throws. The result type keeps
  the \<open>Inr\<close> side for a return, which no branch produces.
\<close>

definition handleRequestError :: "client \<Rightarrow> jsval \<Rightarrow> jsval + unit" where
  "handleRequestError c err =
     (if nullish err then Inl (type_error ''Cannot read property name'')
      else if get_prop err ''name'' = JStr (ErrorClass c) then Inl err
      else
        let err' = normalise_body err;
            statusCode = get_prop err' ''statusCode''
        in
          if truthy statusCode then
            (if statusCode = JNum 404 then throwRequestError (ErrorClass c) (JNum 404) Undefined
             else
               let message = (if truthy (get_prop err' ''error'')
                              then error_message (get_prop err' ''error'') else Undefined)
               in throwRequestError (ErrorClass c) statusCode message)
          else if truthy (get_prop err' ''error'') then
            (let message = error_message (get_prop err' ''error'')
             in throwRequestError (ErrorClass c) (getErrorStatusCode message) message)
          else
            (let message = js_or (get_prop err' ''code'') (JStr ''ENOERROR'')
             in throwRequestError (ErrorClass c) (getErrorStatusCode message) message))"

section \<open>The platform\<close>

text \<open>
  The client is written against Node's \<^verbatim>\<open>crypto\<close>, \<^verbatim>\<open>Buffer\<close> and \<^verbatim>\<open>JSON\<close>, and the
  packages jsonwebtoken and path-to-regexp. None of them is code of this repository:
  each function takes them as a record of functions.
  \<^item> \<open>sha256\<close>, \<open>md5\<close>: the digests of \<^verbatim>\<open>crypto.createHash\<close>; \<open>hex\<close>: \<^verbatim>\<open>digest('hex')\<close>.
  \<^item> \<open>aes256ctr_keystream key iv i\<close>: byte \<open>i\<close> of the key stream that AES-256 in
    counter mode derives from the key and the initialisation vector.
  \<^item> \<open>utf8_encode\<close>, \<open>utf8_decode\<close>: \<^verbatim>\<open>Buffer.from(string)\<close> and the conversion of a
    buffer to a string.
  \<^item> \<open>base64_encode\<close>, \<open>base64_decode\<close>: \<^verbatim>\<open>buffer.toString('base64')\<close> and
    \<^verbatim>\<open>Buffer.from(string, 'base64')\<close>.
  \<^item> \<open>JSON_stringify\<close> returns a string or \<^verbatim>\<open>undefined\<close>; \<open>JSON_parse\<close> is \<open>None\<close>
    where \<^verbatim>\<open>JSON.parse\<close> throws.
  \<^item> \<open>jwt_sign payload secret now\<close>: \<^verbatim>\<open>jwt.sign\<close> with algorithm HS256 at the clock
    time \<open>now\<close> (it stamps the token with \<^verbatim>\<open>iat\<close>).
  \<^item> \<open>pathToRegexp_compile pattern context\<close>: \<^verbatim>\<open>pathToRegexp.compile(pattern)(context)\<close>.
  \<^item> \<open>compare_less v k\<close>, \<open>compare_greater_eq v k\<close>: the engine's \<^verbatim>\<open>v < k\<close> and
    \<^verbatim>\<open>v >= k\<close> for a number \<open>k\<close> and a string, an array or an object \<open>v\<close>. The
    engine converts such a \<open>v\<close> to a number first, which may be a fraction or
    \<^verbatim>\<open>NaN\<close>; the integers of this model do not hold those, so the outcome of the
    comparison is taken from the engine.
  \<^item> \<open>number_to_string n\<close>: the engine's text of a number of magnitude \<open>10\<^sup>2\<^sup>1\<close> or
    more, which is in exponent form.
\<close>

type_synonym byte = "8 word"

record platform =
  sha256 :: "byte list \<Rightarrow> byte list"
  md5 :: "byte list \<Rightarrow> byte list"
  hex :: "byte list \<Rightarrow> string"
  aes256ctr_keystream :: "byte list \<Rightarrow> byte list \<Rightarrow> nat \<Rightarrow> byte"
  utf8_encode :: "string \<Rightarrow> byte list"
  utf8_decode :: "byte list \<Rightarrow> string"
  base64_encode :: "byte list \<Rightarrow> string"
  base64_decode :: "string \<Rightarrow> byte list"
  JSON_stringify :: "jsval \<Rightarrow> jsval"
  JSON_parse :: "string \<Rightarrow> jsval option"
  jwt_sign :: "jsval \<Rightarrow> jsval \<Rightarrow> nat \<Rightarrow> jsval + string"
  pathToRegexp_compile :: "jsval \<Rightarrow> jsval \<Rightarrow> jsval + string"
  compare_less :: "jsval \<Rightarrow> int \<Rightarrow> bool"
  compare_greater_eq :: "jsval \<Rightarrow> int \<Rightarrow> bool"
  number_to_string :: "int \<Rightarrow> string"

section \<open>The cipher module\<close>

text \<open>
  \<^verbatim>\<open>CIPHER_ALGORITHM = 'aes-256-ctr'\<close>. In counter mode \<^verbatim>\<open>cipher.update(data)\<close> is the
  data XOR the key stream, byte by byte, and \<^verbatim>\<open>cipher.final()\<close> is empty; a decipher
  does the same.
\<close>

definition cipher_update :: "platform \<Rightarrow> byte list \<Rightarrow> byte list \<Rightarrow> byte list \<Rightarrow> byte list" where
  "cipher_update p key iv bs =
     map (\<lambda>(i, b). b XOR aes256ctr_keystream p key iv i) (enumerate 0 bs)"

definition cipher_final :: "byte list" where
  "cipher_final = []"

definition FBJWTAES256Error :: "string \<Rightarrow> string \<Rightarrow> jsval" where
  "FBJWTAES256Error message code = new_error ''FBJWTAES256Error'' (JStr code) (JStr message)"

text \<open>
  \<open>encrypt\<close> of the cipher module. \<open>randomBytes\<close> are the 16 bytes that
  \<^verbatim>\<open>crypto.randomBytes(16)\<close> returns in this call; they are read only when no seed is
  given. A truthy seed that is not a string makes \<^verbatim>\<open>update(ivSeed)\<close> throw a TypeError.
\<close>

definition initialization_vector :: "platform \<Rightarrow> byte list \<Rightarrow> jsval \<Rightarrow> byte list" where
  "initialization_vector p randomBytes ivSeed =
     (if truthy ivSeed then md5 p (utf8_encode p (str_of ivSeed)) else randomBytes)"

definition encrypt :: "platform \<Rightarrow> byte list \<Rightarrow> jsval \<Rightarrow> jsval \<Rightarrow> jsval \<Rightarrow> jsval + string" where
  "encrypt p randomBytes key plaintext ivSeed =
     (if \<not> non_empty_string key then
        Inl (FBJWTAES256Error ''Key must be a non-empty string'' ''ENOENCRYPTKEY'')
      else if \<not> non_empty_string plaintext then
        Inl (FBJWTAES256Error ''Plaintext value must be a non-empty string'' ''ENOENCRYPTVALUE'')
      else if truthy ivSeed \<and> \<not> non_empty_string ivSeed then
        Inl (type_error ''The data argument must be a string or a buffer'')
      else
        let digest = sha256 p (utf8_encode p (str_of key));
            iv = initialization_vector p randomBytes ivSeed;
            ciphertext = cipher_update p digest iv (utf8_encode p (str_of plaintext))
        in Inr (base64_encode p (iv @ ciphertext @ cipher_final)))"

definition decrypt :: "platform \<Rightarrow> jsval \<Rightarrow> jsval \<Rightarrow> jsval + string" where
  \<open>decrypt p key encrypted =
     (if \<not> non_empty_string key then
        Inl (FBJWTAES256Error ''Key must be a non-empty string'' ''ENODECRYPTKEY'')
      else if \<not> non_empty_string encrypted then
        Inl (FBJWTAES256Error ''Encrypted value must be a non-empty string'' ''ENODECRYPTVALUE'')
      else
        let digest = sha256 p (utf8_encode p (str_of key));
            input = base64_decode p (str_of encrypted)
        in
          if length input < 17 then
            Inl (type_error ''Provided "encrypted" must decrypt to a non-empty string'')
          else
            let iv = take 16 input;
                ciphertext = drop 16 input
            in Inr (utf8_decode p (cipher_update p digest iv ciphertext) @ utf8_decode p cipher_final))\<close>

section \<open>Encrypting and decrypting with the client\<close>

definition client_encrypt :: "platform \<Rightarrow> byte list \<Rightarrow> jsval \<Rightarrow> jsval \<Rightarrow> jsval \<Rightarrow> jsval + string" where
  "client_encrypt p randomBytes token data ivSeed =
     (let dataString = JSON_stringify p data
      in encrypt p randomBytes token dataString ivSeed)"

text \<open>
  \<^verbatim>\<open>try { data = aes256.decrypt(...); data = JSON.parse(data) } catch (e) { ... }\<close>:
  whatever is thrown inside becomes the client's error 500, EINVALIDPAYLOAD.
\<close>

definition client_decrypt :: "platform \<Rightarrow> client \<Rightarrow> jsval \<Rightarrow> jsval \<Rightarrow> jsval + jsval" where
  "client_decrypt p c token encryptedData =
     (case decrypt p token encryptedData of
        Inl e \<Rightarrow> throwRequestError (ErrorClass c) (JNum 500) (JStr ''EINVALIDPAYLOAD'')
      | Inr s \<Rightarrow>
          (case JSON_parse p s of
             None \<Rightarrow> throwRequestError (ErrorClass c) (JNum 500) (JStr ''EINVALIDPAYLOAD'')
           | Some data \<Rightarrow> Inr data))"

text \<open>The user's id and token are strings; \<^verbatim>\<open>userId + userToken\<close> concatenates them.\<close>

definition encryptUserIdAndToken :: "platform \<Rightarrow> byte list \<Rightarrow> client \<Rightarrow> string \<Rightarrow> string \<Rightarrow> jsval + string" where
  "encryptUserIdAndToken p randomBytes c userId userToken =
     (let ivSeed = JStr (userId @ userToken)
      in client_encrypt p randomBytes (serviceSecret c)
           (JObj [(''userId'', JStr userId), (''userToken'', JStr userToken)]) ivSeed)"

definition decryptUserIdAndToken :: "platform \<Rightarrow> client \<Rightarrow> jsval \<Rightarrow> jsval + jsval" where
  "decryptUserIdAndToken p c encryptedData = client_decrypt p c (serviceSecret c) encryptedData"

section \<open>Access tokens, endpoint URLs and request options\<close>

text \<open>
  \<^verbatim>\<open>crypto.createHash('sha256').update(JSON.stringify(data))\<close> throws a TypeError
  when \<^verbatim>\<open>JSON.stringify\<close> returns \<^verbatim>\<open>undefined\<close>.
\<close>

definition generateAccessToken :: "platform \<Rightarrow> nat \<Rightarrow> client \<Rightarrow> jsval \<Rightarrow> jsval + string" where
  "generateAccessToken p now c data =
     (case JSON_stringify p data of
        JStr s \<Rightarrow>
          let checksum = hex p (sha256 p (utf8_encode p s));
              payload = JObj [(''checksum'', JStr checksum)]
          in jwt_sign p payload (serviceToken c) now
      | v \<Rightarrow> Inl (type_error ''The data argument must be a string or a buffer''))"

text \<open>
  String conversion, for \<^verbatim>\<open>this.serviceUrl + toPath(context)\<close> when the service URL
  is not a string. An integer of magnitude below \<open>10\<^sup>2\<^sup>1\<close> is written with all its
  digits; the text of a larger one is the engine's.
\<close>

fun show_nat :: "nat \<Rightarrow> string" where
  "show_nat n =
     (if n < 10 then [char_of (48 + n)] else show_nat (n div 10) @ [char_of (48 + n mod 10)])"

fun join_comma :: "string list \<Rightarrow> string" where
  "join_comma [] = []"
| "join_comma [s] = s"
| "join_comma (s # t # ss) = s @ '','' @ join_comma (t # ss)"

fun to_string :: "platform \<Rightarrow> jsval \<Rightarrow> string" where
  "to_string p Undefined = ''undefined''"
| "to_string p Null = ''null''"
| "to_string p (JBool b) = (if b then ''true'' else ''false'')"
| "to_string p (JNum n) =
     (if 10 ^ 21 \<le> \<bar>n\<bar> then number_to_string p n
      else if n < 0 then ''-'' @ show_nat (nat (- n)) else show_nat (nat n))"
| "to_string p (JStr s) = s"
| "to_string p (JArr xs) = join_comma (map (\<lambda>x. if nullish x then [] else to_string p x) xs)"
| "to_string p (JObj kvs) = ''[object Object]''"

text \<open>The \<^verbatim>\<open>context = {}\<close> and \<^verbatim>\<open>data = {}\<close> parameter defaults: for \<^verbatim>\<open>undefined\<close> only.\<close>

definition default_object :: "jsval \<Rightarrow> jsval" where
  "default_object v = (if v = Undefined then JObj [] else v)"

definition createEndpointUrl :: "platform \<Rightarrow> client \<Rightarrow> jsval \<Rightarrow> jsval \<Rightarrow> jsval + string" where
  "createEndpointUrl p c urlPattern context =
     (case pathToRegexp_compile p urlPattern (default_object context) of
        Inl e \<Rightarrow> Inl e
      | Inr path \<Rightarrow> Inr (to_string p (serviceUrl c) @ path))"

text \<open>
  \<^verbatim>\<open>Object.keys(data).length\<close>: the number of own enumerable keys; \<^verbatim>\<open>Object.keys\<close>
  throws a TypeError on \<^verbatim>\<open>null\<close> and \<^verbatim>\<open>undefined\<close>.
\<close>

fun Object_keys_length :: "jsval \<Rightarrow> jsval + nat" where
  "Object_keys_length Undefined = Inl (type_error ''Cannot convert undefined or null to object'')"
| "Object_keys_length Null = Inl (type_error ''Cannot convert undefined or null to object'')"
| "Object_keys_length (JBool b) = Inr 0"
| "Object_keys_length (JNum n) = Inr 0"
| "Object_keys_length (JStr s) = Inr (length s)"
| "Object_keys_length (JArr xs) = Inr (length xs)"
| "Object_keys_length (JObj kvs) = Inr (length (remdups (map fst kvs)))"

record request_options =
  url :: string
  headers :: "(string \<times> string) list"
  body :: "jsval option"
  searchParams :: "(string \<times> string) list option"
  json :: bool

text \<open>
  \<open>createRequestOptions\<close>. \<open>useQueryParam\<close> is the source's fourth parameter, which
  it calls \<^verbatim>\<open>searchParams\<close>; it is read for its truthiness. A property the source
  does not set is \<open>None\<close>.
\<close>

definition createRequestOptions ::
  "platform \<Rightarrow> nat \<Rightarrow> client \<Rightarrow> jsval \<Rightarrow> jsval \<Rightarrow> jsval \<Rightarrow> jsval \<Rightarrow> jsval + request_options" where
  "createRequestOptions p now c urlPattern context payload useQueryParam =
     (let data = default_object payload in
      case generateAccessToken p now c data of
        Inl e \<Rightarrow> Inl e
      | Inr accessToken \<Rightarrow>
          (case createEndpointUrl p c urlPattern context of
             Inl e \<Rightarrow> Inl e
           | Inr endpointUrl \<Rightarrow>
               (case Object_keys_length data of
                  Inl e \<Rightarrow> Inl e
                | Inr hasData \<Rightarrow>
                    let requestOptions =
                          \<lparr>url = endpointUrl, headers = [(''x-access-token'', accessToken)],
                           body = None, searchParams = None, json = False\<rparr>;
                        requestOptions =
                          (if hasData \<noteq> 0 \<and> \<not> truthy useQueryParam
                           then requestOptions\<lparr>body := Some data\<rparr> else requestOptions);
                        requestOptions =
                          (if truthy useQueryParam \<and> hasData \<noteq> 0
                           then requestOptions\<lparr>searchParams :=
                                  Some [(''payload'',
                                     base64_encode p (utf8_encode p (str_of (JSON_stringify p data))))]\<rparr>
                           else requestOptions)
                    in Inr (requestOptions\<lparr>json := True\<rparr>))))"

section \<open>The dispatch pipeline\<close>

subsection \<open>Labels, comparisons and trimming\<close>

text \<open>The argument is a response or an error object; the callers rule out a nullish one.\<close>

definition getResponseLabels :: "jsval \<Rightarrow> jsval" where
  "getResponseLabels response =
     JObj ([(''status_code'', get_prop response ''statusCode'')]
       @ (if truthy (get_prop response ''statusMessage'')
          then [(''status_message'', get_prop response ''statusMessage'')] else [])
       @ (if truthy (get_prop response ''name'')
          then [(''error_name'', get_prop response ''name'')] else []))"

text \<open>
  \<^verbatim>\<open>v < k\<close> and \<^verbatim>\<open>v >= k\<close> for a number \<open>k\<close> compare the numeric value of \<open>v\<close>:
  a number is itself, \<^verbatim>\<open>undefined\<close> is \<^verbatim>\<open>NaN\<close> (every comparison is false),
  \<^verbatim>\<open>null\<close> is 0, \<^verbatim>\<open>false\<close> and \<^verbatim>\<open>true\<close> are 0 and 1. For a string, an array or
  an object the comparison is the platform's.
\<close>

fun js_less :: "platform \<Rightarrow> jsval \<Rightarrow> int \<Rightarrow> bool" where
  "js_less p (JNum n) k = (n < k)"
| "js_less p Undefined k = False"
| "js_less p Null k = (0 < k)"
| "js_less p (JBool b) k = ((if b then 1 else 0) < k)"
| "js_less p v k = compare_less p v k"

fun js_greater_eq :: "platform \<Rightarrow> jsval \<Rightarrow> int \<Rightarrow> bool" where
  "js_greater_eq p (JNum n) k = (k \<le> n)"
| "js_greater_eq p Undefined k = False"
| "js_greater_eq p Null k = (k \<le> 0)"
| "js_greater_eq p (JBool b) k = (k \<le> (if b then 1 else 0))"
| "js_greater_eq p v k = compare_greater_eq p v k"

text \<open>
  \<^verbatim>\<open>String.prototype.trim\<close> removes white space and line terminators at both ends.
  Of those, the code units below U+0100 are tab, line feed, vertical tab, form feed,
  carriage return, space and no-break space.
\<close>

definition is_whitespace :: "char \<Rightarrow> bool" where
  "is_whitespace ch = ((of_char ch :: nat) \<in> {9, 10, 11, 12, 13, 32, 160})"

definition trim :: "string \<Rightarrow> string" where
  "trim s = rev (dropWhile is_whitespace (rev (dropWhile is_whitespace s)))"

subsection \<open>Metrics and logging as a trace\<close>

text \<open>
  The metrics collaborators and the logger are observed through the calls made on
  them. \<^verbatim>\<open>startTimer(labels)\<close> returns the function that ends the timer it started: a
  per-attempt timer is named by its index in the order of starting, and
  \<open>requestMetricsEnd\<close>, the variable of \<^verbatim>\<open>send\<close>'s closure that the hooks share, holds
  the index of the timer whose end function it is (\<open>None\<close>: \<^verbatim>\<open>undefined\<close>).
\<close>

datatype event =
    ApiStart jsval
  | ApiEnd jsval
  | RequestStart nat jsval
  | RequestEnd nat jsval
  | LoggerError string jsval

record send_state =
  requestMetricsEnd :: "nat option"
  retryCounter :: jsval
  started :: nat
  events :: "event list"

text \<open>\<^verbatim>\<open>requestMetricsEnd = this.requestMetrics.startTimer(labels)\<close>\<close>

definition startTimer :: "jsval \<Rightarrow> send_state \<Rightarrow> send_state" where
  "startTimer labels st =
     st\<lparr>requestMetricsEnd := Some (started st), started := Suc (started st),
        events := events st @ [RequestStart (started st) labels]\<rparr>"

text \<open>
  The closure \<^verbatim>\<open>logError(type, e)\<close> of \<^verbatim>\<open>send\<close> and the method \<^verbatim>\<open>logError\<close> it
  calls. The source passes the types \<^verbatim>\<open>'client'\<close> and \<^verbatim>\<open>'API'\<close>. The method copies
  the request headers onto the error, then calls \<^verbatim>\<open>logger.error\<close>, which throws a
  TypeError when no logger was given. \<open>logger\<close> tells whether one was. The text of the
  log message is not modelled. The result is what is thrown, if anything, the error
  object as the call leaves it, and the state.
\<close>

datatype log_type = Client | API

fun errorType :: "log_type \<Rightarrow> string" where
  "errorType Client = ''jwt_client_request_error''"
| "errorType API = ''jwt_api_request_error''"

definition logError :: "bool \<Rightarrow> log_type \<Rightarrow> jsval \<Rightarrow> send_state \<Rightarrow> jsval option \<times> jsval \<times> send_state" where
  "logError logger type e st =
     (let e' = (if truthy (get_prop e ''gotOptions'')
                then set_prop e ''client_headers'' (get_prop (get_prop e ''gotOptions'') ''headers'')
                else e)
      in if logger then (None, e', st\<lparr>events := events st @ [LoggerError (errorType type) e']\<rparr>)
         else (Some (type_error ''Cannot read property error of undefined''), e', st))"

subsection \<open>The hooks\<close>

text \<open>
  Each hook is a function of the closure's state. Its result is the value it returns
  to the transport (\<open>Inr\<close>) or throws into it (\<open>Inl\<close>), with the state it leaves.
\<close>

definition beforeRequest :: "jsval \<Rightarrow> send_state \<Rightarrow> (jsval + jsval) \<times> send_state" where
  "beforeRequest labels st = (Inr Undefined, startTimer labels st)"

definition beforeRetry ::
  "bool \<Rightarrow> jsval \<Rightarrow> jsval \<Rightarrow> jsval \<Rightarrow> send_state \<Rightarrow> (jsval + jsval) \<times> send_state" where
  "beforeRetry logger labels error retryCount st =
     (if nullish error then (Inl (type_error ''Cannot set property retryCount''), st)
      else
        let error = set_prop error ''retryCount'' retryCount;
            st = st\<lparr>retryCounter := retryCount\<rparr>
        in case logError logger Client error st of
             (Some thrown, error, st) \<Rightarrow> (Inl thrown, st)
           | (None, error, st) \<Rightarrow>
               let st = (case requestMetricsEnd st of
                           Some i \<Rightarrow> st\<lparr>events := events st @ [RequestEnd i (getResponseLabels error)]\<rparr>
                         | None \<Rightarrow> st)
               in (Inr Undefined, startTimer labels st))"

definition beforeError :: "jsval \<Rightarrow> send_state \<Rightarrow> (jsval + jsval) \<times> send_state" where
  "beforeError error st =
     (if nullish error then (Inl (type_error ''Cannot set property retryCount''), st)
      else
        let error = set_prop error ''retryCount'' (retryCounter st)
        in case requestMetricsEnd st of
             None \<Rightarrow> (Inl (type_error ''requestMetricsEnd is not a function''), st)
           | Some i \<Rightarrow>
               (Inr error, st\<lparr>events := events st @ [RequestEnd i (getResponseLabels error)]\<rparr>))"

definition afterResponse ::
  "platform \<Rightarrow> bool \<Rightarrow> jsval \<Rightarrow> send_state \<Rightarrow> (jsval + jsval) \<times> send_state" where
  "afterResponse p logger response st =
     (if nullish response then (Inl (type_error ''Cannot read property statusCode''), st)
      else
        let logged =
              (if js_greater_eq p (get_prop response ''statusCode'') 400 then
                 let error = JObj [(''statusCode'', get_prop response ''statusCode''),
                                   (''statusMessage'', get_prop response ''statusMessage''),
                                   (''body'', get_prop response ''body''),
                                   (''retryCount'', get_prop response ''retryCount'')]
                 in logError logger Client error st
               else (None, Undefined, st))
        in case logged of
             (Some thrown, error, st) \<Rightarrow> (Inl thrown, st)
           | (None, error, st) \<Rightarrow>
               (case requestMetricsEnd st of
                  None \<Rightarrow> (Inl (type_error ''requestMetricsEnd is not a function''), st)
                | Some i \<Rightarrow>
                    let st = st\<lparr>events := events st @ [RequestEnd i (getResponseLabels response)]\<rparr>;
                        response = set_prop response ''body''
                                     (js_or (get_prop response ''body'') (JStr ''{}''))
                    in (Inr response, st)))"

subsection \<open>The transport\<close>

text \<open>
  The HTTP transport (the package got) owns the requests and the retry loop. Of one
  call it is given here as what \<^verbatim>\<open>send\<close> can observe: the hooks it invokes, in order,
  each with its arguments, and how its promise settles. What it does with a hook's
  result is its own business and is part of neither. The options that \<^verbatim>\<open>send\<close> merges
  for it (the library's defaults, the hooks, \<^verbatim>\<open>sendOptions\<close>, the request options) are
  data handed over and do not appear; \<^verbatim>\<open>method\<close> names one of its request functions.
\<close>

datatype hook_call =
    BeforeRequest
  | BeforeRetry jsval jsval
  | BeforeError jsval
  | AfterResponse jsval

datatype outcome = Resolve jsval | Reject jsval

fun run_hook :: "platform \<Rightarrow> bool \<Rightarrow> jsval \<Rightarrow> hook_call \<Rightarrow> send_state \<Rightarrow> send_state" where
  "run_hook p logger labels BeforeRequest st = snd (beforeRequest labels st)"
| "run_hook p logger labels (BeforeRetry error retryCount) st =
     snd (beforeRetry logger labels error retryCount st)"
| "run_hook p logger labels (BeforeError error) st = snd (beforeError error st)"
| "run_hook p logger labels (AfterResponse response) st =
     snd (afterResponse p logger response st)"

fun run_hooks ::
  "platform \<Rightarrow> bool \<Rightarrow> jsval \<Rightarrow> hook_call list \<Rightarrow> send_state \<Rightarrow> send_state" where
  "run_hooks p logger labels [] st = st"
| "run_hooks p logger labels (h # hs) st =
     run_hooks p logger labels hs (run_hook p logger labels h st)"

subsection \<open>send\<close>

text \<open>
  The body of the \<^verbatim>\<open>catch\<close> block, for the error the transport rejected with (or the
  TypeError of the \<^verbatim>\<open>try\<close> block). The first component of the result is what \<^verbatim>\<open>send\<close>
  resolves to (\<open>Inr\<close>) or rejects with (\<open>Inl\<close>), the second the trace.
\<close>

definition send_failed ::
  "client \<Rightarrow> bool \<Rightarrow> jsval \<Rightarrow> send_state \<Rightarrow> (jsval + jsval) \<times> event list" where
  "send_failed c logger error st =
     (let st = st\<lparr>events := events st @ [ApiEnd (getResponseLabels error)]\<rparr>;
          (thrown, error, st) = (if logger then logError logger API error st else (None, error, st))
      in case handleRequestError c error of
           Inl e \<Rightarrow> (Inl e, events st)
         | Inr u \<Rightarrow> (Inr Undefined, events st))"

definition send_catch ::
  "platform \<Rightarrow> client \<Rightarrow> bool \<Rightarrow> jsval \<Rightarrow> send_state \<Rightarrow> (jsval + jsval) \<times> event list" where
  "send_catch p c logger error st =
     (if nullish error then (Inl (type_error ''Cannot read property response''), events st)
      else
        let response = get_prop error ''response'' in
        if truthy response \<and> js_less p (get_prop response ''statusCode'') 300
           \<and> truthy (get_prop response ''body'')
        then
          (case get_prop response ''body'' of
             JStr s \<Rightarrow>
               if trim s = [] then
                 (case requestMetricsEnd st of
                    None \<Rightarrow> (Inl (type_error ''requestMetricsEnd is not a function''), events st)
                  | Some i \<Rightarrow>
                      (Inr (JObj []), events st @ [RequestEnd i (getResponseLabels response)]))
               else send_failed c logger error st
           | v \<Rightarrow> (Inl (type_error ''response.body.trim is not a function''), events st))
        else send_failed c logger error st)"

text \<open>\<^verbatim>\<open>const labels = {client_name, base_url, url, method}\<close>\<close>

definition request_labels :: "client \<Rightarrow> string \<Rightarrow> jsval \<Rightarrow> jsval" where
  "request_labels c method endpoint =
     JObj [(''client_name'', JStr (constructor_name c)), (''base_url'', serviceUrl c),
           (''url'', endpoint), (''method'', JStr method)]"

text \<open>
  \<open>send\<close>: \<open>now\<close> is the clock time, \<open>logger\<close> tells whether a logger was passed,
  \<open>hooks\<close> and \<open>settled\<close> are the transport's side of the call.
\<close>

definition send ::
  "platform \<Rightarrow> nat \<Rightarrow> client \<Rightarrow> string \<Rightarrow> jsval \<Rightarrow> bool \<Rightarrow> hook_call list \<Rightarrow> outcome
     \<Rightarrow> (jsval + jsval) \<times> event list" where
  "send p now c method args logger hooks settled =
     (if nullish args then (Inl (type_error ''Cannot destructure''), [])
      else
        case createRequestOptions p now c (get_prop args ''url'')
               (default_object (get_prop args ''context'')) (get_prop args ''payload'')
               (JBool (method = ''get'')) of
          Inl e \<Rightarrow> (Inl e, [])
        | Inr options \<Rightarrow>
            let labels = request_labels c method (get_prop args ''url'');
                st = \<lparr>requestMetricsEnd = None, retryCounter = JNum 1, started = 0,
                      events = [ApiStart labels]\<rparr>;
                st = run_hooks p logger labels hooks st
            in (case settled of
                  Resolve response \<Rightarrow>
                    if nullish response
                    then send_catch p c logger (type_error ''Cannot read property statusCode'') st
                    else (Inr (get_prop response ''body''),
                          events st @ [ApiEnd (getResponseLabels response)])
                | Reject error \<Rightarrow> send_catch p c logger error st))"

definition sendGet ::
  "platform \<Rightarrow> nat \<Rightarrow> client \<Rightarrow> jsval \<Rightarrow> bool \<Rightarrow> hook_call list \<Rightarrow> outcome
     \<Rightarrow> (jsval + jsval) \<times> event list" where
  "sendGet p now c args logger hooks settled = send p now c ''get'' args logger hooks settled"

definition sendPost ::
  "platform \<Rightarrow> nat \<Rightarrow> client \<Rightarrow> jsval \<Rightarrow> bool \<Rightarrow> hook_call list \<Rightarrow> outcome
     \<Rightarrow> (jsval + jsval) \<times> event list" where
  "sendPost p now c args logger hooks settled = send p now c ''post'' args logger hooks settled"

section \<open>What the theorems ask of the platform, and what they observe\<close>

text \<open>
  The laws of Node's primitives that the theorems about the cipher rely on: decoding
  base64 undoes encoding it and decodes the empty string to no bytes, an MD5 digest has
  16 bytes, and an empty buffer converts to the empty string.
\<close>

definition platform_ok :: "platform \<Rightarrow> bool" where
  "platform_ok p \<longleftrightarrow>
     (\<forall>bs. base64_decode p (base64_encode p bs) = bs) \<and>
     base64_decode p [] = [] \<and>
     (\<forall>bs. length (md5 p bs) = 16) \<and>
     utf8_decode p [] = []"

text \<open>
  \<^verbatim>\<open>err.error\<close> as the classifier reads it, after \<^verbatim>\<open>err.body\<close> has been copied over it
  when it is an object.
\<close>

definition effective_error :: "jsval \<Rightarrow> jsval" where
  "effective_error err =
     (if truthy (get_prop err ''body'') \<and> typeof_object (get_prop err ''body'')
      then get_prop err ''body'' else get_prop err ''error'')"

text \<open>How often a trace ends the per-call timer, and the per-attempt timer \<open>i\<close>.\<close>

fun is_ApiEnd :: "event \<Rightarrow> bool" where
  "is_ApiEnd (ApiEnd l) = True"
| "is_ApiEnd e = False"

fun is_RequestEnd :: "nat \<Rightarrow> event \<Rightarrow> bool" where
  "is_RequestEnd i (RequestEnd j l) = (i = j)"
| "is_RequestEnd i e = False"

definition api_ends :: "event list \<Rightarrow> nat" where
  "api_ends evs = length (filter is_ApiEnd evs)"

definition request_ends :: "nat \<Rightarrow> event list \<Rightarrow> nat" where
  "request_ends i evs = length (filter (is_RequestEnd i) evs)"

section \<open>Fixtures of the unit tests\<close>

text \<open>The clients that the unit tests construct.\<close>

definition jwtClient :: client where
  "jwtClient =
     \<lparr>serviceSecret = JStr ''testServiceSecret'', serviceToken = JStr ''testServiceToken'',
      serviceUrl = JStr ''https://microservice'', serviceSlug = JStr ''testServiceSlug'',
      ErrorClass = ''FBJWTClientError'', constructor_name = ''FBJWTClient''\<rparr>"

definition nockedClient :: client where
  "nockedClient = jwtClient\<lparr>serviceUrl := JStr ''http://testdomain''\<rparr>"

definition dataString :: string where
  \<open>dataString = ''{"foo":"bar"}''\<close>

definition userIdTokenData :: jsval where
  "userIdTokenData = JObj [(''userId'', JStr ''testUserId''), (''userToken'', JStr ''testUserToken'')]"

text \<open>
  The test of a body of spaces: the response (status 201, the body a space), and the
  error the transport rejects with when it fails to parse that body as JSON, which
  carries the response.
\<close>

definition spacesResponse :: jsval where
  "spacesResponse = JObj [(''statusCode'', JNum 201), (''body'', JStr '' '')]"

definition spacesError :: jsval where
  "spacesError = JObj [(''name'', JStr ''ParseError''), (''response'', spacesResponse)]"




text \<open>
  An executable platform, to evaluate the model on the tests' values. Its functions
  are stand-ins, not Node's algorithms: the digests pad or cut their input to the
  digest's size, the key stream adds up the key, the vector and the position, the
  UTF-8 and base64 conversions map a character to the byte of its code and back, JSON
  is a table of the tests' values, a token is the checksum and the clock time, a URL
  pattern is taken to have no placeholders, a string, array or object compares as
  \<^verbatim>\<open>NaN\<close>, and a large number is written \<^verbatim>\<open>Infinity\<close>.
\<close>

definition test_platform :: platform where
  \<open>test_platform =
     \<lparr>sha256 = (\<lambda>bs. take 32 (bs @ replicate 32 0)),
      md5 = (\<lambda>bs. take 16 (bs @ replicate 16 0)),
      hex = map (\<lambda>b. char_of (unat b)),
      aes256ctr_keystream = (\<lambda>key iv i. sum_list key + sum_list iv + of_nat i),
      utf8_encode = map (\<lambda>ch. word_of_nat (of_char ch)),
      utf8_decode = map (\<lambda>b. char_of (unat b)),
      base64_encode = map (\<lambda>b. char_of (unat b)),
      base64_decode = map (\<lambda>ch. word_of_nat (of_char ch)),
      JSON_stringify = (\<lambda>v.
        if v = Undefined then Undefined
        else if v = JObj [] then JStr ''{}''
        else if v = JObj [(''foo'', JStr ''bar'')] then JStr ''{"foo":"bar"}''
        else if v = userIdTokenData
          then JStr ''{"userId":"testUserId","userToken":"testUserToken"}''
        else JStr ''null''),
      JSON_parse = (\<lambda>s.
        if s = ''{}'' then Some (JObj [])
        else if s = ''{"foo":"bar"}'' then Some (JObj [(''foo'', JStr ''bar'')])
        else if s = ''{"userId":"testUserId","userToken":"testUserToken"}''
          then Some userIdTokenData
        else None),
      jwt_sign = (\<lambda>payload secret now.
        Inr (str_of (get_prop payload ''checksum'') @ ''.'' @ show_nat now)),
      pathToRegexp_compile = (\<lambda>pattern context.
        case pattern of JStr s \<Rightarrow> Inr s | v \<Rightarrow> Inl (type_error ''Expected path to be a string'')),
      compare_less = (\<lambda>v k. False),
      compare_greater_eq = (\<lambda>v k. False),
      number_to_string = (\<lambda>n. ''Infinity'')\<rparr>\<close>

section \<open>Properties of objects\<close>

lemma map_of_assign: "map_of (assign kvs k v) k' = (if k' = k then Some v else map_of kvs k')"
  by (induction kvs) auto

lemma get_prop_set_prop_other: "k' \<noteq> k \<Longrightarrow> get_prop (set_prop w k v) k' = get_prop w k'"
  by (cases w) (simp_all add: map_of_assign)

lemma get_prop_set_prop_same: "get_prop (set_prop (JObj kvs) k v) k = v"
  by (simp add: map_of_assign)

lemma get_prop_nullish: "nullish w \<Longrightarrow> get_prop w k = Undefined"
  by (cases w) simp_all

lemma normalise_body_error: "get_prop (normalise_body err) ''error'' = effective_error err"
  by (cases err) (simp_all add: normalise_body_def effective_error_def map_of_assign)

lemma normalise_body_other: "k \<noteq> ''error'' \<Longrightarrow> get_prop (normalise_body err) k = get_prop err k"
  by (simp add: normalise_body_def get_prop_set_prop_other)

section \<open>The constructor throws or stores\<close>

text \<open>
  Claim C9. The constructor throws, and constructs no client, exactly when one of the
  four required arguments is falsy. The error is of the client's error class (the one
  passed, else FBJWTClientError) and its code names the first falsy argument in the
  order secret, token, slug, URL: ENOSERVICESECRET, ENOSERVICETOKEN, ENOSERVICESLUG,
  ENOMICROSERVICEURL. When all four are truthy the constructor returns a client that
  stores them.
\<close>

theorem constructor_throws_or_stores:
  "(\<not> truthy secret \<longrightarrow>
      (\<exists>e. FBJWTClient secret token slug microserviceUrl errorClass = Inl e \<and>
           get_prop e ''code'' = JStr ''ENOSERVICESECRET'')) \<and>
   (truthy secret \<and> \<not> truthy token \<longrightarrow>
      (\<exists>e. FBJWTClient secret token slug microserviceUrl errorClass = Inl e \<and>
           get_prop e ''code'' = JStr ''ENOSERVICETOKEN'')) \<and>
   (truthy secret \<and> truthy token \<and> \<not> truthy slug \<longrightarrow>
      (\<exists>e. FBJWTClient secret token slug microserviceUrl errorClass = Inl e \<and>
           get_prop e ''code'' = JStr ''ENOSERVICESLUG'')) \<and>
   (truthy secret \<and> truthy token \<and> truthy slug \<and> \<not> truthy microserviceUrl \<longrightarrow>
      (\<exists>e. FBJWTClient secret token slug microserviceUrl errorClass = Inl e \<and>
           get_prop e ''code'' = JStr ''ENOMICROSERVICEURL'')) \<and>
   (truthy secret \<and> truthy token \<and> truthy slug \<and> truthy microserviceUrl \<longrightarrow>
      (\<exists>c. FBJWTClient secret token slug microserviceUrl errorClass = Inr c \<and>
           serviceSecret c = secret \<and> serviceToken c = token \<and>
           serviceSlug c = slug \<and> serviceUrl c = microserviceUrl)) \<and>
   (\<forall>e. FBJWTClient secret token slug microserviceUrl errorClass = Inl e \<longrightarrow>
      \<not> (truthy secret \<and> truthy token \<and> truthy slug \<and> truthy microserviceUrl) \<and>
      get_prop e ''name'' =
        JStr (case errorClass of Some cls \<Rightarrow> cls | None \<Rightarrow> ''FBJWTClientError''))"
  by (auto simp add: FBJWTClient_def throwRequestError_def js_or_def Let_def new_error_def
      split: if_splits)

text \<open>
  The tests' instantiations: no argument, the secret only, secret and token, all but
  the URL, and all four.
\<close>

theorem constructor_throws_or_stores_witness:
  "(\<exists>e. FBJWTClient Undefined Undefined Undefined Undefined None = Inl e \<and>
        get_prop e ''code'' = JStr ''ENOSERVICESECRET'') \<and>
   (\<exists>e. FBJWTClient (JStr ''testServiceSecret'') Undefined Undefined Undefined None = Inl e \<and>
        get_prop e ''code'' = JStr ''ENOSERVICETOKEN'') \<and>
   (\<exists>e. FBJWTClient (JStr ''testServiceSecret'') (JStr ''testServiceToken'') Undefined Undefined
          None = Inl e \<and>
        get_prop e ''code'' = JStr ''ENOSERVICESLUG'') \<and>
   (\<exists>e. FBJWTClient (JStr ''testServiceSecret'') (JStr ''testServiceToken'')
          (JStr ''testServiceSlug'') Undefined None = Inl e \<and>
        get_prop e ''code'' = JStr ''ENOMICROSERVICEURL'') \<and>
   FBJWTClient (JStr ''testServiceSecret'') (JStr ''testServiceToken'')
     (JStr ''testServiceSlug'') (JStr ''https://microservice'') None = Inr jwtClient"
proof -
  have a: "\<exists>e. FBJWTClient Undefined Undefined Undefined Undefined None = Inl e \<and>
        get_prop e ''code'' = JStr ''ENOSERVICESECRET''"
    using constructor_throws_or_stores [of Undefined Undefined Undefined Undefined None] by simp
  have b: "\<exists>e. FBJWTClient (JStr ''testServiceSecret'') Undefined Undefined Undefined None = Inl e \<and>
        get_prop e ''code'' = JStr ''ENOSERVICETOKEN''"
    using constructor_throws_or_stores
      [of "JStr ''testServiceSecret''" Undefined Undefined Undefined None] by simp
  have c: "\<exists>e. FBJWTClient (JStr ''testServiceSecret'') (JStr ''testServiceToken'') Undefined
          Undefined None = Inl e \<and> get_prop e ''code'' = JStr ''ENOSERVICESLUG''"
    using constructor_throws_or_stores
      [of "JStr ''testServiceSecret''" "JStr ''testServiceToken''" Undefined Undefined None]
    by simp
  have d: "\<exists>e. FBJWTClient (JStr ''testServiceSecret'') (JStr ''testServiceToken'')
          (JStr ''testServiceSlug'') Undefined None = Inl e \<and>
        get_prop e ''code'' = JStr ''ENOMICROSERVICEURL''"
    using constructor_throws_or_stores
      [of "JStr ''testServiceSecret''" "JStr ''testServiceToken''" "JStr ''testServiceSlug''"
          Undefined None]
    by simp
  have e: "FBJWTClient (JStr ''testServiceSecret'') (JStr ''testServiceToken'')
     (JStr ''testServiceSlug'') (JStr ''https://microservice'') None = Inr jwtClient"
    by (simp add: FBJWTClient_def jwtClient_def)
  from a b c d e show ?thesis by blast
qed

section \<open>The classifier\<close>

text \<open>
  Claim C5. An error whose name is the name of the client's error class is rethrown as
  it is: the value thrown is the argument itself. So the classifier gives back
  unchanged any error of the client's class, whatever its code and message, and in
  particular the errors it throws itself.
\<close>

theorem handleRequestError_rethrows_own_errors:
  "(get_prop err ''name'' = JStr (ErrorClass c) \<longrightarrow> handleRequestError c err = Inl err) \<and>
   handleRequestError c (new_error (ErrorClass c) code message)
     = Inl (new_error (ErrorClass c) code message)"
proof
  show "get_prop err ''name'' = JStr (ErrorClass c) \<longrightarrow> handleRequestError c err = Inl err"
  proof
    assume n: "get_prop err ''name'' = JStr (ErrorClass c)"
    then have "\<not> nullish err" using get_prop_nullish [of err "''name''"] by auto
    with n show "handleRequestError c err = Inl err" by (simp add: handleRequestError_def)
  qed
next
  show "handleRequestError c (new_error (ErrorClass c) code message)
     = Inl (new_error (ErrorClass c) code message)"
    by (simp add: handleRequestError_def new_error_def)
qed

text \<open>The test's error: \<^verbatim>\<open>new jwtClient.ErrorClass('Boom', {error: {code: 'EBOOM'}})\<close>.\<close>

theorem handleRequestError_rethrows_own_errors_witness:
  "get_prop (new_error ''FBJWTClientError'' (JStr ''EBOOM'') (JStr ''Boom'')) ''name''
     = JStr (ErrorClass jwtClient) \<and>
   handleRequestError jwtClient (new_error ''FBJWTClientError'' (JStr ''EBOOM'') (JStr ''Boom''))
     = Inl (new_error ''FBJWTClientError'' (JStr ''EBOOM'') (JStr ''Boom''))"
  using handleRequestError_rethrows_own_errors
    [of "new_error ''FBJWTClientError'' (JStr ''EBOOM'') (JStr ''Boom'')" jwtClient]
  by (simp add: new_error_def jwtClient_def)

text \<open>
  Claim C2, as amended. For an error that is not of the client's class and whose
  \<^verbatim>\<open>statusCode\<close> is truthy, the classifier throws an error of the client's class whose
  code is the status code. Its message is 404 for status 404. Otherwise, when an error
  object is attached (\<^verbatim>\<open>err.body\<close> if that is an object, else a truthy \<^verbatim>\<open>err.error\<close>),
  the message is the object's name if truthy, else its code if truthy, else
  EUNSPECIFIED; when none is attached, the message is the status code itself.
\<close>

theorem handleRequestError_with_status:
  assumes "get_prop err ''name'' \<noteq> JStr (ErrorClass c)"
    and "truthy (get_prop err ''statusCode'')"
  shows "handleRequestError c err =
     Inl (new_error (ErrorClass c) (get_prop err ''statusCode'')
       (if get_prop err ''statusCode'' = JNum 404 then JNum 404
        else if truthy (effective_error err) then
          (if truthy (get_prop (effective_error err) ''name'')
             then get_prop (effective_error err) ''name''
           else if truthy (get_prop (effective_error err) ''code'')
             then get_prop (effective_error err) ''code''
           else JStr ''EUNSPECIFIED'')
        else get_prop err ''statusCode''))"
proof -
  have nn: "\<not> nullish err"
    using assms(2) get_prop_nullish [of err "''statusCode''"] by auto
  show ?thesis using assms nn
    by (simp add: handleRequestError_def Let_def normalise_body_error normalise_body_other
        throwRequestError_def js_or_def error_message_def)
qed

text \<open>
  The tests' errors with a status code: 404 alone; 400 with an error object that has a
  name; 400 with one that has a code only; 400 with one that has neither.
\<close>

theorem handleRequestError_with_status_witness:
  "handleRequestError jwtClient (JObj [(''statusCode'', JNum 404)])
     = Inl (new_error ''FBJWTClientError'' (JNum 404) (JNum 404)) \<and>
   handleRequestError jwtClient
       (JObj [(''statusCode'', JNum 400), (''statusMessage'', JStr ''boom''),
              (''error'', JObj [(''name'', JStr ''e.error.name''), (''code'', JNum 400)])])
     = Inl (new_error ''FBJWTClientError'' (JNum 400) (JStr ''e.error.name'')) \<and>
   handleRequestError jwtClient
       (JObj [(''statusCode'', JNum 400), (''error'', JObj [(''code'', JNum 409)])])
     = Inl (new_error ''FBJWTClientError'' (JNum 400) (JNum 409)) \<and>
   handleRequestError jwtClient
       (JObj [(''statusCode'', JNum 400), (''error'', JObj [(''foo'', JNum 409)])])
     = Inl (new_error ''FBJWTClientError'' (JNum 400) (JStr ''EUNSPECIFIED''))"
proof -
  have a: "handleRequestError jwtClient (JObj [(''statusCode'', JNum 404)])
     = Inl (new_error ''FBJWTClientError'' (JNum 404) (JNum 404))"
    using handleRequestError_with_status [of "JObj [(''statusCode'', JNum 404)]" jwtClient]
    by (simp add: jwtClient_def)
  have b: "handleRequestError jwtClient
       (JObj [(''statusCode'', JNum 400), (''statusMessage'', JStr ''boom''),
              (''error'', JObj [(''name'', JStr ''e.error.name''), (''code'', JNum 400)])])
     = Inl (new_error ''FBJWTClientError'' (JNum 400) (JStr ''e.error.name''))"
    using handleRequestError_with_status
      [of "JObj [(''statusCode'', JNum 400), (''statusMessage'', JStr ''boom''),
              (''error'', JObj [(''name'', JStr ''e.error.name''), (''code'', JNum 400)])]"
          jwtClient]
    by (simp add: jwtClient_def effective_error_def)
  have c: "handleRequestError jwtClient
       (JObj [(''statusCode'', JNum 400), (''error'', JObj [(''code'', JNum 409)])])
     = Inl (new_error ''FBJWTClientError'' (JNum 400) (JNum 409))"
    using handleRequestError_with_status
      [of "JObj [(''statusCode'', JNum 400), (''error'', JObj [(''code'', JNum 409)])]" jwtClient]
    by (simp add: jwtClient_def effective_error_def)
  have d: "handleRequestError jwtClient
       (JObj [(''statusCode'', JNum 400), (''error'', JObj [(''foo'', JNum 409)])])
     = Inl (new_error ''FBJWTClientError'' (JNum 400) (JStr ''EUNSPECIFIED''))"
    using handleRequestError_with_status
      [of "JObj [(''statusCode'', JNum 400), (''error'', JObj [(''foo'', JNum 409)])]" jwtClient]
    by (simp add: jwtClient_def effective_error_def)
  from a b c d show ?thesis by blast
qed

text \<open>
  Claim C2 as stated fails where it says that EUNSPECIFIED is the message also when no
  error object is attached: for the tests' \<^verbatim>\<open>{statusCode: 401}\<close> the message thrown
  is 401, as the tests expect.
\<close>

theorem handleRequestError_status_without_error_object:
  "handleRequestError jwtClient (JObj [(''statusCode'', JNum 401)])
     = Inl (new_error ''FBJWTClientError'' (JNum 401) (JNum 401)) \<and>
   new_error ''FBJWTClientError'' (JNum 401) (JNum 401)
     \<noteq> new_error ''FBJWTClientError'' (JNum 401) (JStr ''EUNSPECIFIED'')"
  by (simp add: handleRequestError_def jwtClient_def normalise_body_def throwRequestError_def
      js_or_def new_error_def Let_def)

text \<open>
  Claim C3. For an error object that is not of the client's class and has no truthy
  \<^verbatim>\<open>statusCode\<close>, the classifier throws an error of the client's class with this
  message: when an error object is attached (\<^verbatim>\<open>err.body\<close> if that is an object, else
  a truthy \<^verbatim>\<open>err.error\<close>), its name if truthy, else its code if truthy, else
  EUNSPECIFIED; when none is attached, \<^verbatim>\<open>err.code\<close> if truthy, else ENOERROR. The code
  thrown is 502 for the message ENOTFOUND, 503 for ECONNREFUSED and 500 for every other
  message.
\<close>

theorem handleRequestError_without_status:
  assumes "\<not> nullish err" and "get_prop err ''name'' \<noteq> JStr (ErrorClass c)"
    and "\<not> truthy (get_prop err ''statusCode'')"
  shows "\<exists>message. handleRequestError c err =
       Inl (new_error (ErrorClass c)
         (if message = JStr ''ENOTFOUND'' then JNum 502
          else if message = JStr ''ECONNREFUSED'' then JNum 503 else JNum 500) message) \<and>
     message =
       (if truthy (effective_error err) then
          (if truthy (get_prop (effective_error err) ''name'')
             then get_prop (effective_error err) ''name''
           else if truthy (get_prop (effective_error err) ''code'')
             then get_prop (effective_error err) ''code''
           else JStr ''EUNSPECIFIED'')
        else if truthy (get_prop err ''code'') then get_prop err ''code''
        else JStr ''ENOERROR'')"
  using assms
  by (simp add: handleRequestError_def Let_def normalise_body_error normalise_body_other
        throwRequestError_def js_or_def error_message_def getErrorStatusCode_def)

text \<open>
  The tests' errors without a status code: a body named ECONNREFUSED, ENOTFOUND or
  e.madeup, a body with an empty name, and an error with nothing at all.
\<close>

theorem handleRequestError_without_status_witness:
  "handleRequestError jwtClient (JObj [(''body'', JObj [(''name'', JStr ''ECONNREFUSED'')])])
     = Inl (new_error ''FBJWTClientError'' (JNum 503) (JStr ''ECONNREFUSED'')) \<and>
   handleRequestError jwtClient (JObj [(''body'', JObj [(''name'', JStr ''ENOTFOUND'')])])
     = Inl (new_error ''FBJWTClientError'' (JNum 502) (JStr ''ENOTFOUND'')) \<and>
   handleRequestError jwtClient (JObj [(''body'', JObj [(''name'', JStr ''e.madeup'')])])
     = Inl (new_error ''FBJWTClientError'' (JNum 500) (JStr ''e.madeup'')) \<and>
   handleRequestError jwtClient (JObj [(''body'', JObj [(''name'', JStr [])])])
     = Inl (new_error ''FBJWTClientError'' (JNum 500) (JStr ''EUNSPECIFIED'')) \<and>
   handleRequestError jwtClient (JObj [(''statusCode'', Undefined)])
     = Inl (new_error ''FBJWTClientError'' (JNum 500) (JStr ''ENOERROR''))"
proof -
  have a: "handleRequestError jwtClient (JObj [(''body'', JObj [(''name'', JStr ''ECONNREFUSED'')])])
     = Inl (new_error ''FBJWTClientError'' (JNum 503) (JStr ''ECONNREFUSED''))"
    using handleRequestError_without_status
      [of "JObj [(''body'', JObj [(''name'', JStr ''ECONNREFUSED'')])]" jwtClient]
    by (simp add: jwtClient_def effective_error_def)
  have b: "handleRequestError jwtClient (JObj [(''body'', JObj [(''name'', JStr ''ENOTFOUND'')])])
     = Inl (new_error ''FBJWTClientError'' (JNum 502) (JStr ''ENOTFOUND''))"
    using handleRequestError_without_status
      [of "JObj [(''body'', JObj [(''name'', JStr ''ENOTFOUND'')])]" jwtClient]
    by (simp add: jwtClient_def effective_error_def)
  have c: "handleRequestError jwtClient (JObj [(''body'', JObj [(''name'', JStr ''e.madeup'')])])
     = Inl (new_error ''FBJWTClientError'' (JNum 500) (JStr ''e.madeup''))"
    using handleRequestError_without_status
      [of "JObj [(''body'', JObj [(''name'', JStr ''e.madeup'')])]" jwtClient]
    by (simp add: jwtClient_def effective_error_def)
  have d: "handleRequestError jwtClient (JObj [(''body'', JObj [(''name'', JStr [])])])
     = Inl (new_error ''FBJWTClientError'' (JNum 500) (JStr ''EUNSPECIFIED''))"
    using handleRequestError_without_status
      [of "JObj [(''body'', JObj [(''name'', JStr [])])]" jwtClient]
    by (simp add: jwtClient_def effective_error_def)
  have e: "handleRequestError jwtClient (JObj [(''statusCode'', Undefined)])
     = Inl (new_error ''FBJWTClientError'' (JNum 500) (JStr ''ENOERROR''))"
    using handleRequestError_without_status [of "JObj [(''statusCode'', Undefined)]" jwtClient]
    by (simp add: jwtClient_def effective_error_def)
  from a b c d e show ?thesis by blast
qed

section \<open>The cipher\<close>

lemma length_cipher_update [simp]: "length (cipher_update p key iv bs) = length bs"
  by (simp add: cipher_update_def)

lemma nth_cipher_update:
  "i < length bs \<Longrightarrow> cipher_update p key iv bs ! i = bs ! i XOR aes256ctr_keystream p key iv i"
  by (simp add: cipher_update_def nth_enumerate_eq)

text \<open>Deciphering with the same key and vector undoes enciphering.\<close>

lemma cipher_update_involution: "cipher_update p key iv (cipher_update p key iv bs) = bs"
  by (rule nth_equalityI) (simp_all add: nth_cipher_update bit.xor_left_self xor.assoc)

lemma base64_encode_inj:
  assumes "platform_ok p" and "base64_encode p xs = base64_encode p ys"
  shows "xs = ys"
proof -
  have "base64_decode p (base64_encode p xs) = base64_decode p (base64_encode p ys)"
    using assms(2) by simp
  then show ?thesis using assms(1) by (simp add: platform_ok_def)
qed

lemma base64_encode_nonempty:
  assumes "platform_ok p" and "bs \<noteq> []"
  shows "base64_encode p bs \<noteq> []"
proof
  assume "base64_encode p bs = []"
  then have "base64_decode p (base64_encode p bs) = base64_decode p []" by simp
  then show False using assms by (simp add: platform_ok_def)
qed

lemma utf8_encode_nonempty:
  assumes "platform_ok p" and "utf8_decode p (utf8_encode p m) = m" and "m \<noteq> []"
  shows "utf8_encode p m \<noteq> []"
proof
  assume "utf8_encode p m = []"
  then have "utf8_decode p (utf8_encode p m) = utf8_decode p []" by simp
  then show False using assms by (simp add: platform_ok_def)
qed

lemma length_initialization_vector:
  assumes "platform_ok p" and "\<not> truthy ivSeed \<longrightarrow> length r = 16"
  shows "length (initialization_vector p r ivSeed) = 16"
  using assms by (simp add: initialization_vector_def platform_ok_def)

lemma encrypt_value:
  assumes "key \<noteq> []" and "m \<noteq> []" and "\<not> truthy ivSeed \<or> non_empty_string ivSeed"
  shows "encrypt p r (JStr key) (JStr m) ivSeed =
     Inr (base64_encode p (initialization_vector p r ivSeed
        @ cipher_update p (sha256 p (utf8_encode p key)) (initialization_vector p r ivSeed)
            (utf8_encode p m)))"
  using assms by (auto simp add: encrypt_def Let_def cipher_final_def)

lemma decrypt_value:
  assumes ok: "platform_ok p" and "key \<noteq> []" and iv: "length iv = 16" and bs: "bs \<noteq> []"
  shows "decrypt p (JStr key) (JStr (base64_encode p (iv @ bs))) =
     Inr (utf8_decode p (cipher_update p (sha256 p (utf8_encode p key)) iv bs))"
proof -
  have ne: "base64_encode p (iv @ bs) \<noteq> []"
    using ok bs by (simp add: base64_encode_nonempty)
  have dec: "base64_decode p (base64_encode p (iv @ bs)) = iv @ bs"
    using ok by (simp add: platform_ok_def)
  have len: "\<not> length (iv @ bs) < 17" using iv bs by (cases bs) simp_all
  have e: "utf8_decode p [] = []" using ok by (simp add: platform_ok_def)
  show ?thesis using assms(2) ne len iv
    by (simp add: decrypt_def Let_def dec cipher_final_def e del: length_append)
qed

text \<open>What is encrypted with a key decrypts to the plaintext with that key.\<close>

lemma decrypt_encrypt:
  assumes ok: "platform_ok p" and key: "key \<noteq> []" and m: "m \<noteq> []"
    and utf8: "utf8_decode p (utf8_encode p m) = m"
    and seed: "\<not> truthy ivSeed \<or> non_empty_string ivSeed"
    and r: "\<not> truthy ivSeed \<longrightarrow> length r = 16"
  shows "\<exists>encrypted. encrypt p r (JStr key) (JStr m) ivSeed = Inr encrypted \<and>
            decrypt p (JStr key) (JStr encrypted) = Inr m"
proof -
  let ?iv = "initialization_vector p r ivSeed"
  let ?c = "cipher_update p (sha256 p (utf8_encode p key)) ?iv (utf8_encode p m)"
  have "length ?c \<noteq> 0"
    using utf8_encode_nonempty [OF ok utf8 m] by simp
  then have c: "?c \<noteq> []" by fastforce
  have "decrypt p (JStr key) (JStr (base64_encode p (?iv @ ?c))) = Inr m"
    using decrypt_value [OF ok key length_initialization_vector [OF ok r] c] utf8
    by (simp add: cipher_update_involution)
  then show ?thesis
    using encrypt_value [OF key m seed] by simp
qed

lemma byte_char_byte: "word_of_nat (unat (b :: byte) mod 256) = b"
proof -
  have "unat b < 256" using unsigned_less [of b] by simp
  then show ?thesis by simp
qed

lemma test_platform_ok: "platform_ok test_platform"
proof -
  have 1: "\<forall>bs. base64_decode test_platform (base64_encode test_platform bs) = bs"
    by (simp add: test_platform_def comp_def byte_char_byte)
  have 2: "base64_decode test_platform [] = []"
    by (simp add: test_platform_def)
  have 3: "\<forall>bs. length (md5 test_platform bs) = 16"
    by (simp add: test_platform_def min_def)
  have 4: "utf8_decode test_platform [] = []"
    by (simp add: test_platform_def)
  show ?thesis unfolding platform_ok_def using 1 2 3 4 by blast
qed

lemma test_platform_utf8: "utf8_decode test_platform (utf8_encode test_platform s) = s"
  by (simp add: test_platform_def comp_def unat_of_nat take_bit_eq_mod)

text \<open>
  What \<open>decrypt\<close> returns for a result of \<open>encrypt\<close>: the plaintext converted to
  UTF-8 and back. The result of \<open>encrypt\<close> starts with the initialisation vector.
\<close>

lemma decrypt_encrypt_conversion:
  assumes ok: "platform_ok p" and key: "key \<noteq> []" and m: "m \<noteq> []"
    and bytes: "utf8_encode p m \<noteq> []"
    and seed: "\<not> truthy ivSeed \<or> non_empty_string ivSeed"
    and r: "\<not> truthy ivSeed \<longrightarrow> length r = 16"
  shows "\<exists>encrypted. encrypt p r (JStr key) (JStr m) ivSeed = Inr encrypted \<and>
            decrypt p (JStr key) (JStr encrypted) = Inr (utf8_decode p (utf8_encode p m)) \<and>
            take 16 (base64_decode p encrypted) = initialization_vector p r ivSeed"
proof -
  let ?iv = "initialization_vector p r ivSeed"
  let ?c = "cipher_update p (sha256 p (utf8_encode p key)) ?iv (utf8_encode p m)"
  have iv: "length ?iv = 16" by (rule length_initialization_vector [OF ok r])
  have "length ?c \<noteq> 0" using bytes by simp
  then have c: "?c \<noteq> []" by fastforce
  have d: "decrypt p (JStr key) (JStr (base64_encode p (?iv @ ?c)))
      = Inr (utf8_decode p (utf8_encode p m))"
    using decrypt_value [OF ok key iv c] by (simp add: cipher_update_involution)
  have "base64_decode p (base64_encode p (?iv @ ?c)) = ?iv @ ?c"
    using ok by (simp add: platform_ok_def)
  then have t: "take 16 (base64_decode p (base64_encode p (?iv @ ?c))) = ?iv"
    using iv by simp
  show ?thesis
    using encrypt_value [OF key m seed, of p r] d t by simp
qed

lemma encrypt_draws_differ:
  assumes ok: "platform_ok p" and key: "key \<noteq> []" and m: "m \<noteq> []"
    and seed: "\<not> truthy ivSeed"
    and r: "length r = 16" and r': "length r' = 16" and d: "r \<noteq> r'"
  shows "encrypt p r (JStr key) (JStr m) ivSeed \<noteq> encrypt p r' (JStr key) (JStr m) ivSeed"
proof
  assume "encrypt p r (JStr key) (JStr m) ivSeed = encrypt p r' (JStr key) (JStr m) ivSeed"
  then have "base64_encode p (r @ cipher_update p (sha256 p (utf8_encode p key)) r (utf8_encode p m))
      = base64_encode p (r' @ cipher_update p (sha256 p (utf8_encode p key)) r' (utf8_encode p m))"
    using seed key m by (simp add: encrypt_value initialization_vector_def)
  then have "r @ cipher_update p (sha256 p (utf8_encode p key)) r (utf8_encode p m)
      = r' @ cipher_update p (sha256 p (utf8_encode p key)) r' (utf8_encode p m)"
    by (rule base64_encode_inj [OF ok])
  then have "r = r'" using r r' by simp
  then show False using d by simp
qed

text \<open>
  Claim C6, as amended. Let the key and the plaintext be non-empty strings, let the
  plaintext convert to at least one byte of UTF-8, and let the seed be a string or
  absent; 16 random bytes are drawn for each call. Then \<open>encrypt\<close> returns, and
  \<open>decrypt\<close> with the same key returns the plaintext converted to UTF-8 and back:
  the plaintext itself when that conversion preserves it. (Node's conversion preserves
  every well-formed string; it replaces a lone surrogate by U+FFFD, so such a plaintext
  comes back changed.) The first 16 bytes of the result of \<open>encrypt\<close>, decoded, are
  the initialisation vector: the MD5 digest of the seed when the seed is a non-empty
  string, the random bytes when it is absent or the empty string. So with a non-empty
  seed two calls return the same result, whatever random bytes they draw, and without
  one, two calls that draw different random bytes return different results.
\<close>

theorem encrypt_decrypt_roundtrip:
  assumes ok: "platform_ok p" and key: "key \<noteq> []" and m: "m \<noteq> []"
    and bytes: "utf8_encode p m \<noteq> []"
    and seed: "\<not> truthy ivSeed \<or> non_empty_string ivSeed"
    and r: "length r = 16" and r': "length r' = 16"
  shows "(\<exists>encrypted. encrypt p r (JStr key) (JStr m) ivSeed = Inr encrypted \<and>
            decrypt p (JStr key) (JStr encrypted) = Inr (utf8_decode p (utf8_encode p m)) \<and>
            take 16 (base64_decode p encrypted) =
              (if truthy ivSeed then md5 p (utf8_encode p (str_of ivSeed)) else r)) \<and>
         (utf8_decode p (utf8_encode p m) = m \<longrightarrow>
            (\<exists>encrypted. encrypt p r (JStr key) (JStr m) ivSeed = Inr encrypted \<and>
               decrypt p (JStr key) (JStr encrypted) = Inr m)) \<and>
         (\<not> truthy ivSeed \<and> r \<noteq> r' \<longrightarrow>
            encrypt p r (JStr key) (JStr m) ivSeed \<noteq> encrypt p r' (JStr key) (JStr m) ivSeed) \<and>
         (truthy ivSeed \<longrightarrow>
            encrypt p r (JStr key) (JStr m) ivSeed = encrypt p r' (JStr key) (JStr m) ivSeed)"
proof (intro conjI impI)
  have rr: "\<not> truthy ivSeed \<longrightarrow> length r = 16" using r by simp
  obtain encrypted where e: "encrypt p r (JStr key) (JStr m) ivSeed = Inr encrypted"
    and d: "decrypt p (JStr key) (JStr encrypted) = Inr (utf8_decode p (utf8_encode p m))"
    and t: "take 16 (base64_decode p encrypted) = initialization_vector p r ivSeed"
    using decrypt_encrypt_conversion [OF ok key m bytes seed rr] by blast
  show "\<exists>encrypted. encrypt p r (JStr key) (JStr m) ivSeed = Inr encrypted \<and>
            decrypt p (JStr key) (JStr encrypted) = Inr (utf8_decode p (utf8_encode p m)) \<and>
            take 16 (base64_decode p encrypted) =
              (if truthy ivSeed then md5 p (utf8_encode p (str_of ivSeed)) else r)"
    using e d t by (simp add: initialization_vector_def)
  show "\<exists>encrypted. encrypt p r (JStr key) (JStr m) ivSeed = Inr encrypted \<and>
               decrypt p (JStr key) (JStr encrypted) = Inr m"
    if "utf8_decode p (utf8_encode p m) = m"
    using e d that by simp
next
  assume a: "\<not> truthy ivSeed \<and> r \<noteq> r'"
  then show "encrypt p r (JStr key) (JStr m) ivSeed \<noteq> encrypt p r' (JStr key) (JStr m) ivSeed"
    using encrypt_draws_differ [OF ok key m _ r r'] by blast
next
  assume "truthy ivSeed"
  then show "encrypt p r (JStr key) (JStr m) ivSeed = encrypt p r' (JStr key) (JStr m) ivSeed"
    by (simp add: encrypt_def Let_def initialization_vector_def)
qed

lemma test_platform_bytes: "s \<noteq> [] \<Longrightarrow> utf8_encode test_platform s \<noteq> []"
  by (simp add: test_platform_def)

text \<open>
  The cipher tests' key and data, without a seed for two different draws of the random
  bytes, and with the seed \<^verbatim>\<open>ivSeed\<close>.
\<close>

theorem encrypt_decrypt_roundtrip_witness:
  "(\<exists>encrypted.
      encrypt test_platform (replicate 16 1) (JStr ''testUserToken'') (JStr dataString) Undefined
        = Inr encrypted \<and>
      decrypt test_platform (JStr ''testUserToken'') (JStr encrypted) = Inr dataString \<and>
      take 16 (base64_decode test_platform encrypted) = replicate 16 1) \<and>
   (\<exists>encrypted.
      encrypt test_platform (replicate 16 1) (JStr ''testUserToken'') (JStr dataString)
        (JStr ''ivSeed'') = Inr encrypted \<and>
      decrypt test_platform (JStr ''testUserToken'') (JStr encrypted) = Inr dataString \<and>
      take 16 (base64_decode test_platform encrypted)
        = md5 test_platform (utf8_encode test_platform ''ivSeed'')) \<and>
   encrypt test_platform (replicate 16 1) (JStr ''testUserToken'') (JStr dataString) Undefined
     \<noteq> encrypt test_platform (replicate 16 2) (JStr ''testUserToken'') (JStr dataString) Undefined \<and>
   encrypt test_platform (replicate 16 1) (JStr ''testUserToken'') (JStr dataString) (JStr ''ivSeed'')
     = encrypt test_platform (replicate 16 2) (JStr ''testUserToken'') (JStr dataString)
         (JStr ''ivSeed'')"
proof -
  have ne: "dataString \<noteq> []" by (simp add: dataString_def)
  have b: "utf8_encode test_platform dataString \<noteq> []" by (rule test_platform_bytes [OF ne])
  have d: "replicate 16 (1 :: byte) \<noteq> replicate 16 2" by (simp add: replicate_eq_replicate)
  have k: "''testUserToken'' \<noteq> []" by simp
  have l1: "length (replicate 16 (1 :: byte)) = 16" and l2: "length (replicate 16 (2 :: byte)) = 16"
    by simp_all
  have s1: "\<not> truthy Undefined \<or> non_empty_string Undefined" by simp
  have s2: "\<not> truthy (JStr ''ivSeed'') \<or> non_empty_string (JStr ''ivSeed'')" by simp
  note unseeded = encrypt_decrypt_roundtrip [OF test_platform_ok k ne b s1 l1 l2]
  note seeded = encrypt_decrypt_roundtrip [OF test_platform_ok k ne b s2 l1 l2]
  have 1: "\<exists>encrypted.
      encrypt test_platform (replicate 16 1) (JStr ''testUserToken'') (JStr dataString) Undefined
        = Inr encrypted \<and>
      decrypt test_platform (JStr ''testUserToken'') (JStr encrypted) = Inr dataString \<and>
      take 16 (base64_decode test_platform encrypted) = replicate 16 1"
    using unseeded [THEN conjunct1] by (simp add: test_platform_utf8)
  have 2: "\<exists>encrypted.
      encrypt test_platform (replicate 16 1) (JStr ''testUserToken'') (JStr dataString)
        (JStr ''ivSeed'') = Inr encrypted \<and>
      decrypt test_platform (JStr ''testUserToken'') (JStr encrypted) = Inr dataString \<and>
      take 16 (base64_decode test_platform encrypted)
        = md5 test_platform (utf8_encode test_platform ''ivSeed'')"
    using seeded [THEN conjunct1] by (simp add: test_platform_utf8)
  have 3: "encrypt test_platform (replicate 16 1) (JStr ''testUserToken'') (JStr dataString) Undefined
     \<noteq> encrypt test_platform (replicate 16 2) (JStr ''testUserToken'') (JStr dataString) Undefined"
    using unseeded [THEN conjunct2, THEN conjunct2, THEN conjunct1] d by simp
  have 4: "encrypt test_platform (replicate 16 1) (JStr ''testUserToken'') (JStr dataString)
       (JStr ''ivSeed'')
     = encrypt test_platform (replicate 16 2) (JStr ''testUserToken'') (JStr dataString)
         (JStr ''ivSeed'')"
    using seeded [THEN conjunct2, THEN conjunct2, THEN conjunct2] by simp
  from 1 2 3 4 show ?thesis by (intro conjI)
qed

text \<open>
  Claim C6 as stated fails where it says that two calls with the same seed return the
  same result, and that the vector is the MD5 digest of the seed, for every seed: the
  empty string is falsy, so \<open>encrypt\<close> takes the random bytes for it, and two calls
  with the seed \<^verbatim>\<open>''\<close> that draw different random bytes return different results.
\<close>

theorem encrypt_empty_seed_is_random:
  "encrypt test_platform (replicate 16 1) (JStr ''testUserToken'') (JStr dataString) (JStr [])
     \<noteq> encrypt test_platform (replicate 16 2) (JStr ''testUserToken'') (JStr dataString) (JStr [])"
proof -
  have ne: "dataString \<noteq> []" by (simp add: dataString_def)
  have d: "replicate 16 (1 :: byte) \<noteq> replicate 16 2" by (simp add: replicate_eq_replicate)
  show ?thesis
    by (rule encrypt_draws_differ [OF test_platform_ok _ ne _ _ _ d]) simp_all
qed

text \<open>
  Claim C7. \<open>encrypt\<close> throws the cipher's error with code ENOENCRYPTKEY when the key
  is not a non-empty string and, the key being one, with code ENOENCRYPTVALUE when the
  plaintext is not a non-empty string. \<open>decrypt\<close> throws ENODECRYPTKEY and
  ENODECRYPTVALUE likewise. When both arguments of \<open>decrypt\<close> are non-empty strings
  and the base64 decoding of the second has fewer than 17 bytes, it throws a TypeError,
  which is not of the cipher's error class.
\<close>

theorem cipher_rejects_bad_input:
  "(\<not> non_empty_string key \<longrightarrow>
      encrypt p r key plaintext ivSeed =
        Inl (FBJWTAES256Error ''Key must be a non-empty string'' ''ENOENCRYPTKEY'')) \<and>
   (non_empty_string key \<and> \<not> non_empty_string plaintext \<longrightarrow>
      encrypt p r key plaintext ivSeed =
        Inl (FBJWTAES256Error ''Plaintext value must be a non-empty string'' ''ENOENCRYPTVALUE'')) \<and>
   (\<not> non_empty_string key \<longrightarrow>
      decrypt p key encrypted =
        Inl (FBJWTAES256Error ''Key must be a non-empty string'' ''ENODECRYPTKEY'')) \<and>
   (non_empty_string key \<and> \<not> non_empty_string encrypted \<longrightarrow>
      decrypt p key encrypted =
        Inl (FBJWTAES256Error ''Encrypted value must be a non-empty string'' ''ENODECRYPTVALUE'')) \<and>
   (non_empty_string key \<and> non_empty_string encrypted \<and>
    length (base64_decode p (str_of encrypted)) < 17 \<longrightarrow>
      (\<exists>e. decrypt p key encrypted = Inl e \<and> get_prop e ''name'' = JStr ''TypeError'' \<and>
           get_prop e ''name'' \<noteq> JStr ''FBJWTAES256Error'')) \<and>
   get_prop (FBJWTAES256Error message code) ''name'' = JStr ''FBJWTAES256Error'' \<and>
   get_prop (FBJWTAES256Error message code) ''code'' = JStr code"
  by (simp add: encrypt_def decrypt_def Let_def FBJWTAES256Error_def new_error_def type_error_def)

text \<open>The tests' calls with a missing key or value, and a value that decodes to 7 bytes.\<close>

theorem cipher_rejects_bad_input_witness:
  "encrypt test_platform [] Undefined (JStr dataString) Undefined =
     Inl (FBJWTAES256Error ''Key must be a non-empty string'' ''ENOENCRYPTKEY'') \<and>
   encrypt test_platform [] (JStr ''testUserToken'') Undefined Undefined =
     Inl (FBJWTAES256Error ''Plaintext value must be a non-empty string'' ''ENOENCRYPTVALUE'') \<and>
   decrypt test_platform Undefined (JStr dataString) =
     Inl (FBJWTAES256Error ''Key must be a non-empty string'' ''ENODECRYPTKEY'') \<and>
   decrypt test_platform (JStr ''testUserToken'') Undefined =
     Inl (FBJWTAES256Error ''Encrypted value must be a non-empty string'' ''ENODECRYPTVALUE'') \<and>
   (\<exists>e. decrypt test_platform (JStr ''testUserToken'') (JStr ''invalid'') = Inl e \<and>
        get_prop e ''name'' = JStr ''TypeError'')"
proof -
  have l: "length (base64_decode test_platform ''invalid'') < 17"
    by (simp add: test_platform_def)
  show ?thesis
    using cipher_rejects_bad_input [where key = Undefined and p = test_platform and r = "[]"
        and plaintext = "JStr dataString" and ivSeed = Undefined and encrypted = "JStr dataString"
        and message = "[]" and code = "[]"]
      cipher_rejects_bad_input [where key = "JStr ''testUserToken''" and p = test_platform
        and r = "[]" and plaintext = Undefined and ivSeed = Undefined and encrypted = Undefined
        and message = "[]" and code = "[]"]
      cipher_rejects_bad_input [where key = "JStr ''testUserToken''" and p = test_platform
        and r = "[]" and plaintext = Undefined and ivSeed = Undefined
        and encrypted = "JStr ''invalid''" and message = "[]" and code = "[]"] l
    by auto
qed

text \<open>
  Claim C10. Let the client's service secret be a non-empty string, the user's id and
  token non-empty strings, and let JSON give the object \<^verbatim>\<open>{userId, userToken}\<close> a
  non-empty text that parses back to the object and that the conversion to UTF-8 and
  back preserves. Then \<open>encryptUserIdAndToken\<close> does not depend on the random bytes
  (two calls return the same result: the seed is \<^verbatim>\<open>userId + userToken\<close>), it returns,
  and \<open>decryptUserIdAndToken\<close> of its result returns the object.
\<close>

theorem userIdAndToken_roundtrip:
  assumes ok: "platform_ok p"
    and secret: "serviceSecret c = JStr key" "key \<noteq> []"
    and user: "userId \<noteq> []" "userToken \<noteq> []"
    and stringify: "JSON_stringify p (JObj [(''userId'', JStr userId), (''userToken'', JStr userToken)])
        = JStr s" "s \<noteq> []"
    and parse: "JSON_parse p s = Some (JObj [(''userId'', JStr userId), (''userToken'', JStr userToken)])"
    and utf8: "utf8_decode p (utf8_encode p s) = s"
  shows "encryptUserIdAndToken p r c userId userToken = encryptUserIdAndToken p r' c userId userToken \<and>
     (\<exists>encrypted. encryptUserIdAndToken p r c userId userToken = Inr encrypted \<and>
        decryptUserIdAndToken p c (JStr encrypted)
          = Inr (JObj [(''userId'', JStr userId), (''userToken'', JStr userToken)]))"
proof
  have t: "truthy (JStr (userId @ userToken))" using user by simp
  show "encryptUserIdAndToken p r c userId userToken = encryptUserIdAndToken p r' c userId userToken"
    using t by (simp add: encryptUserIdAndToken_def client_encrypt_def encrypt_def Let_def
        initialization_vector_def)
  have seed: "\<not> truthy (JStr (userId @ userToken)) \<or> non_empty_string (JStr (userId @ userToken))"
    using user by simp
  have rr: "\<not> truthy (JStr (userId @ userToken)) \<longrightarrow> length r = 16" using t by simp
  obtain encrypted where e: "encrypt p r (JStr key) (JStr s) (JStr (userId @ userToken)) = Inr encrypted"
    and d: "decrypt p (JStr key) (JStr encrypted) = Inr s"
    using decrypt_encrypt [OF ok secret(2) stringify(2) utf8 seed rr] by blast
  have "encryptUserIdAndToken p r c userId userToken = Inr encrypted"
    using e secret stringify by (simp add: encryptUserIdAndToken_def client_encrypt_def Let_def)
  moreover have "decryptUserIdAndToken p c (JStr encrypted)
      = Inr (JObj [(''userId'', JStr userId), (''userToken'', JStr userToken)])"
    using d parse secret by (simp add: decryptUserIdAndToken_def client_decrypt_def)
  ultimately show "\<exists>encrypted. encryptUserIdAndToken p r c userId userToken = Inr encrypted \<and>
        decryptUserIdAndToken p c (JStr encrypted)
          = Inr (JObj [(''userId'', JStr userId), (''userToken'', JStr userToken)])"
    by blast
qed

text \<open>The tests' user id and token, with the tests' client.\<close>

theorem userIdAndToken_roundtrip_witness:
  "encryptUserIdAndToken test_platform (replicate 16 1) jwtClient ''testUserId'' ''testUserToken''
     = encryptUserIdAndToken test_platform (replicate 16 2) jwtClient ''testUserId'' ''testUserToken'' \<and>
   (\<exists>encrypted.
      encryptUserIdAndToken test_platform (replicate 16 1) jwtClient ''testUserId'' ''testUserToken''
        = Inr encrypted \<and>
      decryptUserIdAndToken test_platform jwtClient (JStr encrypted) = Inr userIdTokenData)"
proof -
  have k: "serviceSecret jwtClient = JStr ''testServiceSecret''" by (simp add: jwtClient_def)
  have s: \<open>JSON_stringify test_platform
      (JObj [(''userId'', JStr ''testUserId''), (''userToken'', JStr ''testUserToken'')])
        = JStr ''{"userId":"testUserId","userToken":"testUserToken"}''\<close>
    by (simp add: test_platform_def userIdTokenData_def)
  have q: \<open>JSON_parse test_platform ''{"userId":"testUserId","userToken":"testUserToken"}''
      = Some (JObj [(''userId'', JStr ''testUserId''), (''userToken'', JStr ''testUserToken'')])\<close>
    by (simp add: test_platform_def userIdTokenData_def)
  have "encryptUserIdAndToken test_platform (replicate 16 1) jwtClient ''testUserId'' ''testUserToken''
     = encryptUserIdAndToken test_platform (replicate 16 2) jwtClient ''testUserId'' ''testUserToken'' \<and>
   (\<exists>encrypted.
      encryptUserIdAndToken test_platform (replicate 16 1) jwtClient ''testUserId'' ''testUserToken''
        = Inr encrypted \<and>
      decryptUserIdAndToken test_platform jwtClient (JStr encrypted)
        = Inr (JObj [(''userId'', JStr ''testUserId''), (''userToken'', JStr ''testUserToken'')]))"
    by (rule userIdAndToken_roundtrip [OF test_platform_ok k _ _ _ s _ q test_platform_utf8])
      simp_all
  then show ?thesis unfolding userIdTokenData_def .
qed

section \<open>Request options\<close>

lemma Object_keys_length_default:
  assumes "payload \<noteq> Null"
  shows "\<exists>n. Object_keys_length (default_object payload) = Inr n \<and>
             (n \<noteq> 0 \<longrightarrow> default_object payload = payload)"
  using assms by (cases payload) (simp_all add: default_object_def)

text \<open>
  Claim C8. Whenever the access token can be generated, the endpoint URL can be built
  and the payload is not \<^verbatim>\<open>null\<close>, \<open>createRequestOptions\<close> returns options, for
  every URL pattern, context, payload and query flag. The options carry
  \<^verbatim>\<open>json: true\<close> and the header \<^verbatim>\<open>x-access-token\<close> with the token generated from the
  payload. With \<open>n\<close> the number of keys of the payload: when \<open>n\<close> is not 0 and the
  flag is falsy, the body is the payload and there are no search parameters; when
  \<open>n\<close> is not 0 and the flag is truthy, there is no body and the search parameters
  are the single parameter \<^verbatim>\<open>payload\<close>, the base64 encoding of the payload's JSON
  text; when \<open>n\<close> is 0 there is neither. Body and search parameters are never both
  present.
\<close>

theorem createRequestOptions_result:
  assumes token: "generateAccessToken p now c (default_object payload) = Inr accessToken"
    and endpoint: "createEndpointUrl p c urlPattern context = Inr endpointUrl"
    and payload: "payload \<noteq> Null"
  shows "\<exists>options n.
      createRequestOptions p now c urlPattern context payload useQueryParam = Inr options \<and>
      Object_keys_length (default_object payload) = Inr n \<and>
      json options = True \<and>
      headers options = [(''x-access-token'', accessToken)] \<and>
      (n \<noteq> 0 \<and> \<not> truthy useQueryParam \<longrightarrow>
         body options = Some payload \<and> searchParams options = None) \<and>
      (n \<noteq> 0 \<and> truthy useQueryParam \<longrightarrow>
         body options = None \<and>
         searchParams options =
           Some [(''payload'', base64_encode p (utf8_encode p (str_of (JSON_stringify p payload))))]) \<and>
      (n = 0 \<longrightarrow> body options = None \<and> searchParams options = None) \<and>
      \<not> (body options \<noteq> None \<and> searchParams options \<noteq> None)"
proof -
  obtain n where n: "Object_keys_length (default_object payload) = Inr n"
    and d: "n \<noteq> 0 \<longrightarrow> default_object payload = payload"
    using Object_keys_length_default [OF payload] by blast
  show ?thesis using token endpoint n d
    by (auto simp add: createRequestOptions_def Let_def)
qed

lemma test_platform_base64_utf8:
  "base64_encode test_platform (utf8_encode test_platform s) = s"
  by (simp add: test_platform_def comp_def unat_of_nat take_bit_eq_mod)

lemma test_token:
  "\<exists>t. generateAccessToken test_platform now jwtClient (JObj [(''foo'', JStr ''bar'')]) = Inr t"
  by (simp add: generateAccessToken_def test_platform_def Let_def)

lemma test_token_empty:
  "\<exists>t. generateAccessToken test_platform now jwtClient (JObj []) = Inr t"
  by (simp add: generateAccessToken_def test_platform_def Let_def)

lemma test_endpoint:
  "createEndpointUrl test_platform jwtClient (JStr ''/foo'') (JObj []) = Inr ''https://microservice/foo''"
  by (simp add: createEndpointUrl_def test_platform_def jwtClient_def)

text \<open>
  The tests' calls: the payload \<^verbatim>\<open>{foo: 'bar'}\<close> without and with the query flag, and
  an empty payload.
\<close>

theorem createRequestOptions_result_witness:
  "(\<exists>options.
      createRequestOptions test_platform 0 jwtClient (JStr ''/foo'') (JObj [])
        (JObj [(''foo'', JStr ''bar'')]) Undefined = Inr options \<and>
      json options = True \<and> body options = Some (JObj [(''foo'', JStr ''bar'')]) \<and>
      searchParams options = None) \<and>
   (\<exists>options.
      createRequestOptions test_platform 0 jwtClient (JStr ''/foo'') (JObj [])
        (JObj [(''foo'', JStr ''bar'')]) (JBool True) = Inr options \<and>
      json options = True \<and> body options = None \<and>
      searchParams options = Some [(''payload'', dataString)]) \<and>
   (\<exists>options.
      createRequestOptions test_platform 0 jwtClient (JStr ''/foo'') (JObj [])
        (JObj []) (JBool False) = Inr options \<and>
      json options = True \<and> body options = None \<and> searchParams options = None)"
proof -
  obtain t where t: "generateAccessToken test_platform 0 jwtClient
      (default_object (JObj [(''foo'', JStr ''bar'')])) = Inr t"
    using test_token [of 0] by (auto simp add: default_object_def)
  obtain t' where t': "generateAccessToken test_platform 0 jwtClient (default_object (JObj [])) = Inr t'"
    using test_token_empty [of 0] by (auto simp add: default_object_def)
  have b: "base64_encode test_platform (utf8_encode test_platform
      (str_of (JSON_stringify test_platform (JObj [(''foo'', JStr ''bar'')])))) = dataString"
  proof -
    have "JSON_stringify test_platform (JObj [(''foo'', JStr ''bar'')]) = JStr dataString"
      by (simp add: test_platform_def dataString_def)
    then show ?thesis by (simp add: test_platform_base64_utf8)
  qed
  have 1: "\<exists>options.
      createRequestOptions test_platform 0 jwtClient (JStr ''/foo'') (JObj [])
        (JObj [(''foo'', JStr ''bar'')]) Undefined = Inr options \<and>
      json options = True \<and> body options = Some (JObj [(''foo'', JStr ''bar'')]) \<and>
      searchParams options = None"
    using createRequestOptions_result [OF t test_endpoint, of Undefined]
    by (auto simp add: default_object_def)
  have 2: "\<exists>options.
      createRequestOptions test_platform 0 jwtClient (JStr ''/foo'') (JObj [])
        (JObj [(''foo'', JStr ''bar'')]) (JBool True) = Inr options \<and>
      json options = True \<and> body options = None \<and>
      searchParams options = Some [(''payload'', dataString)]"
    using createRequestOptions_result [OF t test_endpoint, of "JBool True"] b
    by (auto simp add: default_object_def)
  have 3: "\<exists>options.
      createRequestOptions test_platform 0 jwtClient (JStr ''/foo'') (JObj [])
        (JObj []) (JBool False) = Inr options \<and>
      json options = True \<and> body options = None \<and> searchParams options = None"
    using createRequestOptions_result [OF t' test_endpoint, of "JBool False"]
    by (auto simp add: default_object_def)
  from 1 2 3 show ?thesis by blast
qed

section \<open>The dispatch pipeline: blank bodies and timers\<close>




lemma logError_handle: "requestMetricsEnd (snd (snd (logError logger type e st))) = requestMetricsEnd st"
  by (simp add: logError_def Let_def)

lemma logError_api_ends:
  "api_ends (events (snd (snd (logError logger type e st)))) = api_ends (events st)"
  by (simp add: logError_def Let_def api_ends_def)








lemma send_rejected:
  assumes "\<not> nullish args"
    and "createRequestOptions p now c (get_prop args ''url'')
           (default_object (get_prop args ''context'')) (get_prop args ''payload'')
           (JBool (method = ''get'')) = Inr options"
  shows "send p now c method args logger hooks (Reject error) =
     send_catch p c logger error
       (run_hooks p logger (request_labels c method (get_prop args ''url'')) hooks
          \<lparr>requestMetricsEnd = None, retryCounter = JNum 1, started = 0,
           events = [ApiStart (request_labels c method (get_prop args ''url''))]\<rparr>)"
  using assms by (simp add: send_def Let_def)





lemma test_send_options:
  "\<exists>options. createRequestOptions test_platform 0 nockedClient (JStr endpoint)
      (default_object Undefined) Undefined (JBool True) = Inr options"
  by (simp add: createRequestOptions_def generateAccessToken_def createEndpointUrl_def
      default_object_def test_platform_def nockedClient_def jwtClient_def Let_def)

lemma test_run_hooks:
  "run_hooks test_platform False labels [BeforeRequest, AfterResponse spacesResponse]
     \<lparr>requestMetricsEnd = None, retryCounter = JNum 1, started = 0, events = [ApiStart labels]\<rparr>
   = \<lparr>requestMetricsEnd = Some 0, retryCounter = JNum 1, started = 1,
      events = [ApiStart labels, RequestStart 0 labels,
                RequestEnd 0 (JObj [(''status_code'', JNum 201)])]\<rparr>"
  by (simp add: beforeRequest_def afterResponse_def startTimer_def spacesResponse_def
      getResponseLabels_def Let_def)




text \<open>
  Claim C1 does not hold of \<open>send\<close> on the path that tolerates a white-space body.
  In the tests' call for a body of one space, the transport starts one attempt, gives
  the response to the \<^verbatim>\<open>afterResponse\<close> hook, which ends the attempt's timer, and
  rejects. The \<^verbatim>\<open>catch\<close> block then calls \<^verbatim>\<open>requestMetricsEnd\<close> once more and returns:
  the attempt's timer is ended twice, and the per-call timer, which the other two ways
  out of \<^verbatim>\<open>send\<close> end with \<^verbatim>\<open>apiMetricsEnd\<close>, is never ended. By
  \<open>send_tolerance_path\<close> the per-call timer is left open on this path whatever the
  transport did before.
\<close>

theorem send_spaces_body_timers:
  "send test_platform 0 nockedClient ''get'' (JObj [(''url'', JStr ''/spaces-body'')]) False
     [BeforeRequest, AfterResponse spacesResponse] (Reject spacesError)
   = (Inr (JObj []),
      [ApiStart (request_labels nockedClient ''get'' (JStr ''/spaces-body'')),
       RequestStart 0 (request_labels nockedClient ''get'' (JStr ''/spaces-body'')),
       RequestEnd 0 (JObj [(''status_code'', JNum 201)]),
       RequestEnd 0 (JObj [(''status_code'', JNum 201)])]) \<and>
   api_ends (snd (send test_platform 0 nockedClient ''get'' (JObj [(''url'', JStr ''/spaces-body'')])
     False [BeforeRequest, AfterResponse spacesResponse] (Reject spacesError))) = 0 \<and>
   request_ends 0 (snd (send test_platform 0 nockedClient ''get''
     (JObj [(''url'', JStr ''/spaces-body'')])
     False [BeforeRequest, AfterResponse spacesResponse] (Reject spacesError))) = 2"
proof -
  obtain options where o: "createRequestOptions test_platform 0 nockedClient (JStr ''/spaces-body'')
      (default_object Undefined) Undefined (JBool True) = Inr options"
    using test_send_options by blast
  have c: "send_catch test_platform nockedClient False spacesError
      \<lparr>requestMetricsEnd = Some 0, retryCounter = JNum 1, started = 1,
       events = [ApiStart (request_labels nockedClient ''get'' (JStr ''/spaces-body'')),
                 RequestStart 0 (request_labels nockedClient ''get'' (JStr ''/spaces-body'')),
                 RequestEnd 0 (JObj [(''status_code'', JNum 201)])]\<rparr>
    = (Inr (JObj []),
      [ApiStart (request_labels nockedClient ''get'' (JStr ''/spaces-body'')),
       RequestStart 0 (request_labels nockedClient ''get'' (JStr ''/spaces-body'')),
       RequestEnd 0 (JObj [(''status_code'', JNum 201)]),
       RequestEnd 0 (JObj [(''status_code'', JNum 201)])])"
    by (simp add: send_catch_def spacesError_def spacesResponse_def trim_def
        is_whitespace_def getResponseLabels_def Let_def)
  have s: "send test_platform 0 nockedClient ''get'' (JObj [(''url'', JStr ''/spaces-body'')]) False
     [BeforeRequest, AfterResponse spacesResponse] (Reject spacesError)
   = (Inr (JObj []),
      [ApiStart (request_labels nockedClient ''get'' (JStr ''/spaces-body'')),
       RequestStart 0 (request_labels nockedClient ''get'' (JStr ''/spaces-body'')),
       RequestEnd 0 (JObj [(''status_code'', JNum 201)]),
       RequestEnd 0 (JObj [(''status_code'', JNum 201)])])"
  proof -
    have "send test_platform 0 nockedClient ''get'' (JObj [(''url'', JStr ''/spaces-body'')]) False
        [BeforeRequest, AfterResponse spacesResponse] (Reject spacesError)
      = send_catch test_platform nockedClient False spacesError
          (run_hooks test_platform False (request_labels nockedClient ''get'' (JStr ''/spaces-body''))
             [BeforeRequest, AfterResponse spacesResponse]
             \<lparr>requestMetricsEnd = None, retryCounter = JNum 1, started = 0,
              events = [ApiStart (request_labels nockedClient ''get'' (JStr ''/spaces-body''))]\<rparr>)"
      using send_rejected [of "JObj [(''url'', JStr ''/spaces-body'')]" test_platform 0 nockedClient
          "''get''" options False "[BeforeRequest, AfterResponse spacesResponse]" spacesError] o
      by (simp del: run_hooks.simps)
    then show ?thesis by (simp only: test_run_hooks c)
  qed
  show ?thesis unfolding s by (simp add: api_ends_def request_ends_def)
qed

end
